theory Spec2Isabelle
  imports Main "HOL-Library.Char_ord" "HOL-Library.List_Lexorder" "HOL-Library.Multiset"
    "HOL-Library.Product_Lexorder"
begin

section \<open>JavaScript values\<close>

text \<open>
  The handlers of \<^verbatim>\<open>routes.ts\<close> work on parsed JSON documents and on the values
  JavaScript computes from them. A number is an integer, \<^verbatim>\<open>NaN\<close> or an infinity: the
  identifiers and counters of the upstream service are integers; fractions are outside
  the model, and so is the rounding of the integers of a document beyond \<open>2^53\<close>; the
  zero with a sign is not told apart from zero. A string is a list of code units below
  256. An object is the list of its own properties in insertion order, with distinct
  keys; a lookup reads the first binding of a key.
  The answer of a handler is the value the code hands to \<^verbatim>\<open>res.json\<close>; what JSON keeps
  of a value, and what the \<^verbatim>\<open>jsonb\<close> column of the store keeps of it, are the functions
  \<open>json_value\<close> and \<open>jsonb\<close> below.
\<close>

datatype jsnum = Num int | NaN | PosInfinity | NegInfinity

datatype jsval =
    Undefined
  | Null
  | Bool bool
  | Number jsnum
  | Str string
  | Arr "jsval list"
  | Obj "(string \<times> jsval) list"

text \<open>
  Everything a \<^verbatim>\<open>try\<close> block of the source can catch. \<open>AxiosError st\<close> is the
  rejection of an upstream call: \<open>st\<close> is \<^verbatim>\<open>error.response.status\<close> when the
  service answered (with a status outside 2xx) and \<open>None\<close> when there was no answer.
  The other errors have no \<^verbatim>\<open>response\<close> property. Message texts are not modelled.
\<close>

datatype error =
    AxiosError "nat option"
  | ZodError
  | TypeError
  | NotNullViolation
  | UniqueViolation
  | NoValuesToSet
  | QueryError

fun response_status :: "error \<Rightarrow> nat option" where
  "response_status (AxiosError st) = st"
| "response_status _ = None"

text \<open>Sequencing of computations that may throw.\<close>

fun bind_err :: "error + 'a \<Rightarrow> ('a \<Rightarrow> error + 'b) \<Rightarrow> error + 'b" where
  "bind_err (Inl e) f = Inl e"
| "bind_err (Inr x) f = f x"

text \<open>
  \<open>get_prop v k\<close> is \<^verbatim>\<open>v.k\<close> for the property names the handlers read
  (\<^verbatim>\<open>data\<close>, \<^verbatim>\<open>name\<close>, \<^verbatim>\<open>count\<close>, \<^verbatim>\<open>id\<close>, \<^verbatim>\<open>imageUrl\<close>, \<^verbatim>\<open>length\<close>): reading a property
  of \<^verbatim>\<open>undefined\<close> or \<^verbatim>\<open>null\<close> throws a TypeError, an absent property is
  \<^verbatim>\<open>undefined\<close>, arrays and strings have a \<^verbatim>\<open>length\<close>.
\<close>

fun get_prop :: "jsval \<Rightarrow> string \<Rightarrow> error + jsval" where
  "get_prop Undefined k = Inl TypeError"
| "get_prop Null k = Inl TypeError"
| "get_prop (Obj kvs) k = Inr (case map_of kvs k of None \<Rightarrow> Undefined | Some v \<Rightarrow> v)"
| "get_prop (Arr xs) k = Inr (if k = ''length'' then Number (Num (int (length xs))) else Undefined)"
| "get_prop (Str s) k = Inr (if k = ''length'' then Number (Num (int (length s))) else Undefined)"
| "get_prop (Bool b) k = Inr Undefined"
| "get_prop (Number n) k = Inr Undefined"

text \<open>\<open>index0 v\<close> is \<^verbatim>\<open>v[0]\<close>.\<close>

fun index0 :: "jsval \<Rightarrow> error + jsval" where
  "index0 Undefined = Inl TypeError"
| "index0 Null = Inl TypeError"
| "index0 (Arr xs) = Inr (case xs of [] \<Rightarrow> Undefined | x # _ \<Rightarrow> x)"
| "index0 (Str s) = Inr (case s of [] \<Rightarrow> Undefined | c # _ \<Rightarrow> Str [c])"
| "index0 (Obj kvs) = Inr (case map_of kvs ''0'' of None \<Rightarrow> Undefined | Some v \<Rightarrow> v)"
| "index0 (Bool b) = Inr Undefined"
| "index0 (Number n) = Inr Undefined"

subsection \<open>Decimal numerals\<close>

definition digit_char :: "nat \<Rightarrow> char" where
  "digit_char d = ''0123456789'' ! (d mod 10)"

fun dec_nat :: "nat \<Rightarrow> string" where
  "dec_nat n = (if n < 10 then [digit_char n] else dec_nat (n div 10) @ [digit_char (n mod 10)])"

declare dec_nat.simps [simp del]

definition dec_int :: "int \<Rightarrow> string" where
  "dec_int i = (if i < 0 then CHR ''-'' # dec_nat (nat (- i)) else dec_nat (nat i))"

text \<open>
  \<open>toString v\<close> is the method call \<^verbatim>\<open>v.toString()\<close>: it throws on \<^verbatim>\<open>undefined\<close> and
  \<^verbatim>\<open>null\<close>, and on an object whose own property \<^verbatim>\<open>toString\<close> (never a function in a
  JSON document) hides the inherited method. An array joins its elements with commas,
  \<^verbatim>\<open>undefined\<close> and \<^verbatim>\<open>null\<close> elements giving the empty string.
\<close>

fun toString :: "jsval \<Rightarrow> error + string"
  and join_elems :: "jsval list \<Rightarrow> error + string" where
  "toString Undefined = Inl TypeError"
| "toString Null = Inl TypeError"
| "toString (Bool b) = Inr (if b then ''true'' else ''false'')"
| "toString (Number (Num i)) = Inr (dec_int i)"
| "toString (Number NaN) = Inr ''NaN''"
| "toString (Number PosInfinity) = Inr ''Infinity''"
| "toString (Number NegInfinity) = Inr ''-Infinity''"
| "toString (Str s) = Inr s"
| "toString (Arr xs) = join_elems xs"
| "toString (Obj kvs) =
     (if ''toString'' \<in> set (map fst kvs) then Inl TypeError else Inr ''[object Object]'')"
| "join_elems [] = Inr ''''"
| "join_elems (x # xs) =
     bind_err (if x = Undefined \<or> x = Null then Inr '''' else toString x) (\<lambda>s.
       if xs = [] then Inr s else bind_err (join_elems xs) (\<lambda>r. Inr (s @ '','' @ r)))"

subsection \<open>parseInt\<close>

text \<open>
  \<^verbatim>\<open>parseInt(s)\<close> with no radix: leading white space is skipped, then an optional sign,
  then an optional \<^verbatim>\<open>0x\<close> or \<^verbatim>\<open>0X\<close> that selects radix 16; the longest run of digits
  of the radix is read, and the result is \<^verbatim>\<open>NaN\<close> when that run is empty. The
  result is a double: the integer read is rounded to the nearest number with 53
  significant bits, the even one of two that are equally near, and it is an infinity from
  \<open>2^1024\<close> on. (The standard lets an implementation read the decimal digits after the
  20th significant one as zeros; here every digit is read.)
\<close>

definition white_space :: "char \<Rightarrow> bool" where
  "white_space c = (c \<in> set [CHR 0x09, CHR 0x0A, CHR 0x0B, CHR 0x0C, CHR 0x0D, CHR 0x20, CHR 0xA0])"

definition digit_value :: "char \<Rightarrow> nat option" where
  "digit_value c =
     (let n = of_char c :: nat in
      if 48 \<le> n \<and> n \<le> 57 then Some (n - 48)
      else if 97 \<le> n \<and> n \<le> 122 then Some (n - 87)
      else if 65 \<le> n \<and> n \<le> 90 then Some (n - 55)
      else None)"

definition radix_digit :: "nat \<Rightarrow> char \<Rightarrow> bool" where
  "radix_digit r c = (case digit_value c of None \<Rightarrow> False | Some d \<Rightarrow> d < r)"

definition digits_value :: "nat \<Rightarrow> string \<Rightarrow> int" where
  "digits_value r ds =
     foldl (\<lambda>acc c. acc * int r + (case digit_value c of None \<Rightarrow> 0 | Some d \<Rightarrow> int d)) 0 ds"

definition strip_sign :: "string \<Rightarrow> bool \<times> string" where
  "strip_sign s =
     (case s of
        c # rest \<Rightarrow> if c = CHR ''-'' then (True, rest) else if c = CHR ''+'' then (False, rest) else (False, s)
      | [] \<Rightarrow> (False, s))"

definition strip_hex_prefix :: "string \<Rightarrow> nat \<times> string" where
  "strip_hex_prefix s =
     (case s of
        a # b # rest \<Rightarrow> if a = CHR ''0'' \<and> (b = CHR ''x'' \<or> b = CHR ''X'') then (16, rest) else (10, s)
      | _ \<Rightarrow> (10, s))"

function bit_length :: "int \<Rightarrow> nat" where
  "bit_length n = (if n \<le> 0 then 0 else Suc (bit_length (n div 2)))"
  by pat_completeness auto
termination
  by (relation "measure nat") auto

declare bit_length.simps [simp del]

text \<open>The double nearest to an integer that is not negative, \<open>None\<close> when it is infinite.\<close>

definition nearest_double :: "int \<Rightarrow> int option" where
  "nearest_double m =
     (if m < 2 ^ 53 then Some m
      else
        let e = bit_length m - 53;
            q = m div 2 ^ e;
            r = m mod 2 ^ e;
            q' = (if 2 ^ e < 2 * r \<or> (2 * r = 2 ^ e \<and> odd q) then q + 1 else q)
        in if q' * 2 ^ e < 2 ^ 1024 then Some (q' * 2 ^ e) else None)"

definition parseInt :: "string \<Rightarrow> jsnum" where
  "parseInt input =
     (let (negative, s) = strip_sign (dropWhile white_space input);
          (r, t) = strip_hex_prefix s;
          z = takeWhile (radix_digit r) t
      in if z = [] then NaN
         else
           (case nearest_double (digits_value r z) of
              None \<Rightarrow> if negative then NegInfinity else PosInfinity
            | Some m \<Rightarrow> Num (if negative then - m else m)))"

subsection \<open>JSON\<close>

text \<open>
  \<open>json_value v\<close> is what \<^verbatim>\<open>JSON.parse(JSON.stringify(v))\<close> gives: a number that is
  \<^verbatim>\<open>NaN\<close> or infinite becomes \<^verbatim>\<open>null\<close>, so does \<^verbatim>\<open>undefined\<close> in an array, and a
  property with the value \<^verbatim>\<open>undefined\<close> is left out.
\<close>

fun json_value :: "jsval \<Rightarrow> jsval"
  and json_items :: "jsval list \<Rightarrow> jsval list"
  and json_props :: "(string \<times> jsval) list \<Rightarrow> (string \<times> jsval) list" where
  "json_value Undefined = Undefined"
| "json_value Null = Null"
| "json_value (Bool b) = Bool b"
| "json_value (Number (Num i)) = Number (Num i)"
| "json_value (Number NaN) = Null"
| "json_value (Number PosInfinity) = Null"
| "json_value (Number NegInfinity) = Null"
| "json_value (Str s) = Str s"
| "json_value (Arr xs) = Arr (json_items xs)"
| "json_value (Obj kvs) = Obj (json_props kvs)"
| "json_items [] = []"
| "json_items (x # xs) = (if x = Undefined then Null else json_value x) # json_items xs"
| "json_props [] = []"
| "json_props (p # kvs) =
     (if snd p = Undefined then json_props kvs else (fst p, json_value (snd p)) # json_props kvs)"

text \<open>
  A \<^verbatim>\<open>jsonb\<close> column does not keep the order of the keys of an object: it returns them
  shorter first, and keys of one length code unit by code unit (the keys of the objects
  the handlers store are ASCII).
\<close>

fun key_order :: "jsval \<Rightarrow> jsval"
  and order_items :: "jsval list \<Rightarrow> jsval list"
  and order_props :: "(string \<times> jsval) list \<Rightarrow> (string \<times> jsval) list" where
  "key_order (Arr xs) = Arr (order_items xs)"
| "key_order (Obj kvs) = Obj (sort_key (\<lambda>p. (length (fst p), fst p)) (order_props kvs))"
| "key_order Undefined = Undefined"
| "key_order Null = Null"
| "key_order (Bool b) = Bool b"
| "key_order (Number n) = Number n"
| "key_order (Str s) = Str s"
| "order_items [] = []"
| "order_items (x # xs) = key_order x # order_items xs"
| "order_props [] = []"
| "order_props (p # kvs) = (fst p, key_order (snd p)) # order_props kvs"

definition jsonb :: "jsval \<Rightarrow> jsval" where
  "jsonb v = key_order (json_value v)"

section \<open>The Persistence Store\<close>

text \<open>
  The two tables of \<^verbatim>\<open>schema.ts\<close> and the operations of \<^verbatim>\<open>storage.ts\<close>. The
  database handle of \<^verbatim>\<open>./db\<close> is not among the sources: the state of the database is
  the argument \<open>db\<close> of every operation, and an operation that writes returns the new
  state. A table is the list of its rows in insertion
  order; \<^verbatim>\<open>serial\<close> keys come from a counter holding the next value. The column
  \<^verbatim>\<open>user_data\<close> holds what \<open>jsonb\<close> keeps of the value written. The column
  \<^verbatim>\<open>avatar_url\<close> is nullable text: it holds \<open>Null\<close> or the value the handler stored
  (the driver's conversion of a value that is not a string is not modelled). The column
  \<^verbatim>\<open>is_terminated\<close> is a nullable boolean.
\<close>

record search_row =
  sh_id :: nat
  sh_query :: string
  sh_type :: string
  sh_timestamp :: string
  sh_success :: bool

record cache_row =
  uc_id :: nat
  uc_userId :: string
  uc_userData :: jsval
  uc_avatarUrl :: jsval
  uc_timestamp :: string
  uc_isTerminated :: "bool option"

record store =
  searchHistory :: "search_row list"
  searchHistory_seq :: nat
  userCache :: "cache_row list"
  userCache_seq :: nat

text \<open>
  \<^verbatim>\<open>InsertSearchHistory\<close>: \<^verbatim>\<open>success\<close> may be left out (the column defaults to true).
\<close>

record insert_search_history =
  new_query :: string
  new_type :: string
  new_timestamp :: string
  new_success :: "bool option"

text \<open>
  \<^verbatim>\<open>InsertUserCache\<close> as the code receives it at run time: \<^verbatim>\<open>userId\<close> is read by
  \<^verbatim>\<open>addUserCache\<close>, every other property may be absent (the type asks for
  \<^verbatim>\<open>userData\<close> and \<^verbatim>\<open>timestamp\<close>, and types are erased). An absent property and a
  property with the value \<^verbatim>\<open>undefined\<close> are the same to the query builder: they are
  \<open>Undefined\<close> for \<^verbatim>\<open>userData\<close> and \<^verbatim>\<open>avatarUrl\<close> and \<open>None\<close> for the other two.
  \<open>Some None\<close> is an \<^verbatim>\<open>isTerminated\<close> of \<^verbatim>\<open>null\<close>. A value of \<^verbatim>\<open>null\<close> is the SQL
  null.
\<close>

record insert_user_cache =
  ins_userId :: string
  ins_userData :: jsval
  ins_avatarUrl :: jsval
  ins_timestamp :: "string option"
  ins_isTerminated :: "bool option option"

text \<open>\<^verbatim>\<open>Partial<InsertUserCache>\<close>, in the same way.\<close>

record partial_user_cache =
  set_userId :: "string option"
  set_userData :: jsval
  set_avatarUrl :: jsval
  set_timestamp :: "string option"
  set_isTerminated :: "bool option option"

definition as_partial :: "insert_user_cache \<Rightarrow> partial_user_cache" where
  "as_partial c =
     \<lparr>set_userId = Some (ins_userId c), set_userData = ins_userData c,
      set_avatarUrl = ins_avatarUrl c, set_timestamp = ins_timestamp c,
      set_isTerminated = ins_isTerminated c\<rparr>"

definition addSearchHistory :: "store \<Rightarrow> insert_search_history \<Rightarrow> search_row \<times> store" where
  "addSearchHistory db search =
     (let row = \<lparr>sh_id = searchHistory_seq db, sh_query = new_query search,
                 sh_type = new_type search, sh_timestamp = new_timestamp search,
                 sh_success = (case new_success search of None \<Rightarrow> True | Some b \<Rightarrow> b)\<rparr>
      in (row, db\<lparr>searchHistory := searchHistory db @ [row],
                  searchHistory_seq := searchHistory_seq db + 1\<rparr>))"

text \<open>
  \<^verbatim>\<open>ORDER BY timestamp DESC\<close> on the text column, under a collation that compares
  strings code unit by code unit; on the timestamps the handlers write, ISO strings of
  one format, this is the order of time. SQL leaves the order of rows with equal
  timestamps open; here the later insertion comes first.
\<close>

definition by_timestamp_desc :: "store \<Rightarrow> search_row list" where
  "by_timestamp_desc db = rev (sort_key sh_timestamp (searchHistory db))"

text \<open>
  \<^verbatim>\<open>getRecentSearches(limit)\<close>. The limit is a number, 10 when the argument is
  \<^verbatim>\<open>undefined\<close> (\<open>None\<close>). The query builder writes a \<^verbatim>\<open>LIMIT\<close> only for a limit
  that is at least 0: with a negative limit and with \<^verbatim>\<open>NaN\<close> the query has none and
  returns every row. The database reads the limit as a 64-bit integer and refuses one
  that is not.
\<close>

definition getRecentSearches :: "store \<Rightarrow> jsnum option \<Rightarrow> error + search_row list" where
  "getRecentSearches db limit =
     (case (case limit of None \<Rightarrow> Num 10 | Some l \<Rightarrow> l) of
        Num n \<Rightarrow>
          if n < 0 then Inr (by_timestamp_desc db)
          else if n < 2 ^ 63 then Inr (take (nat n) (by_timestamp_desc db))
          else Inl QueryError
      | NaN \<Rightarrow> Inr (by_timestamp_desc db)
      | NegInfinity \<Rightarrow> Inr (by_timestamp_desc db)
      | PosInfinity \<Rightarrow> Inl QueryError)"

definition getUserCache :: "store \<Rightarrow> string \<Rightarrow> cache_row option" where
  "getUserCache db userId =
     (case filter (\<lambda>r. uc_userId r = userId) (userCache db) of [] \<Rightarrow> None | r # _ \<Rightarrow> Some r)"

text \<open>\<^verbatim>\<open>SET\<close> of the given columns on one row; a column not given keeps its value.\<close>

definition set_columns :: "partial_user_cache \<Rightarrow> cache_row \<Rightarrow> cache_row" where
  "set_columns c r =
     r\<lparr>uc_userId := (case set_userId c of None \<Rightarrow> uc_userId r | Some u \<Rightarrow> u),
       uc_userData := (if set_userData c = Undefined then uc_userData r else jsonb (set_userData c)),
       uc_avatarUrl := (if set_avatarUrl c = Undefined then uc_avatarUrl r else set_avatarUrl c),
       uc_timestamp := (case set_timestamp c of None \<Rightarrow> uc_timestamp r | Some t \<Rightarrow> t),
       uc_isTerminated := (case set_isTerminated c of None \<Rightarrow> uc_isTerminated r | Some b \<Rightarrow> b)\<rparr>"

definition no_values :: "partial_user_cache \<Rightarrow> bool" where
  "no_values c \<longleftrightarrow>
     set_userId c = None \<and> set_userData c = Undefined \<and> set_avatarUrl c = Undefined \<and>
     set_timestamp c = None \<and> set_isTerminated c = None"

text \<open>
  \<^verbatim>\<open>UPDATE user_cache SET ... WHERE user_id = userId RETURNING *\<close>, the first returned
  row. The query builder throws when there is nothing to set. The statement fails, and
  changes nothing, when it sets \<^verbatim>\<open>user_data\<close>, a \<^verbatim>\<open>notNull\<close> column, to null on a row,
  and when the new rows would break the \<^verbatim>\<open>unique\<close> constraint on \<^verbatim>\<open>user_id\<close>.
\<close>

definition updateUserCache ::
  "store \<Rightarrow> string \<Rightarrow> partial_user_cache \<Rightarrow> (error + cache_row option) \<times> store" where
  "updateUserCache db userId c =
     (if no_values c then (Inl NoValuesToSet, db)
      else if set_userData c = Null \<and> filter (\<lambda>r. uc_userId r = userId) (userCache db) \<noteq> []
      then (Inl NotNullViolation, db)
      else
        let rows = map (\<lambda>r. if uc_userId r = userId then set_columns c r else r) (userCache db)
        in if \<not> distinct (map uc_userId rows) then (Inl UniqueViolation, db)
           else
             (Inr (case filter (\<lambda>r. uc_userId r = userId) (userCache db) of
                     [] \<Rightarrow> None
                   | r # _ \<Rightarrow> Some (set_columns c r)),
              db\<lparr>userCache := rows\<rparr>))"

text \<open>
  \<^verbatim>\<open>addUserCache\<close>: the update when a row for the user exists, else an insert. The insert
  draws a key from the sequence, fills the columns left out with their defaults
  (\<^verbatim>\<open>avatar_url\<close> null, \<^verbatim>\<open>is_terminated\<close> false) and fails when a \<^verbatim>\<open>notNull\<close> column
  without a default (\<^verbatim>\<open>user_data\<close>, \<^verbatim>\<open>timestamp\<close>) has no value or, for \<^verbatim>\<open>user_data\<close>,
  the value null; the key drawn is then lost.
\<close>

definition addUserCache ::
  "store \<Rightarrow> insert_user_cache \<Rightarrow> (error + cache_row option) \<times> store" where
  "addUserCache db c =
     (case getUserCache db (ins_userId c) of
        Some existing \<Rightarrow> updateUserCache db (ins_userId c) (as_partial c)
      | None \<Rightarrow>
          (case ins_timestamp c of
             Some t \<Rightarrow>
               if ins_userData c = Undefined \<or> ins_userData c = Null
               then (Inl NotNullViolation, db\<lparr>userCache_seq := userCache_seq db + 1\<rparr>)
               else
                 let row = \<lparr>uc_id = userCache_seq db, uc_userId = ins_userId c,
                             uc_userData = jsonb (ins_userData c),
                             uc_avatarUrl =
                               (if ins_avatarUrl c = Undefined then Null else ins_avatarUrl c),
                             uc_timestamp = t,
                             uc_isTerminated =
                               (case ins_isTerminated c of None \<Rightarrow> Some False | Some b \<Rightarrow> b)\<rparr>
                 in (Inr (Some row),
                     db\<lparr>userCache := userCache db @ [row], userCache_seq := userCache_seq db + 1\<rparr>)
           | None \<Rightarrow> (Inl NotNullViolation, db\<lparr>userCache_seq := userCache_seq db + 1\<rparr>)))"

section \<open>Schemas\<close>

text \<open>
  The validators of \<^verbatim>\<open>schema.ts\<close>, built from the combinators of the validation
  library as the source builds them. A schema takes the value of a property
  (\<open>Undefined\<close> when the property is absent) to the parsed value, or throws. An object
  schema accepts an object only (not an array, not \<^verbatim>\<open>null\<close>), parses the properties of
  its shape in order, drops every other property, and keeps a property whose parsed value
  is \<^verbatim>\<open>undefined\<close> only if the input has it.
\<close>

type_synonym schema = "jsval \<Rightarrow> error + jsval"

definition z_number :: schema where
  "z_number v = (case v of Number n \<Rightarrow> if n = NaN then Inl ZodError else Inr v | _ \<Rightarrow> Inl ZodError)"

definition z_string :: schema where
  "z_string v = (case v of Str s \<Rightarrow> Inr v | _ \<Rightarrow> Inl ZodError)"

definition z_boolean :: schema where
  "z_boolean v = (case v of Bool b \<Rightarrow> Inr v | _ \<Rightarrow> Inl ZodError)"

definition z_optional :: "schema \<Rightarrow> schema" where
  "z_optional inner v = (if v = Undefined then Inr Undefined else inner v)"

definition z_nullable :: "schema \<Rightarrow> schema" where
  "z_nullable inner v = (if v = Null then Inr Null else inner v)"

definition z_default :: "schema \<Rightarrow> jsval \<Rightarrow> schema" where
  "z_default inner d v = inner (if v = Undefined then d else v)"

primrec parse_items :: "schema \<Rightarrow> jsval list \<Rightarrow> error + jsval list" where
  "parse_items item [] = Inr []"
| "parse_items item (x # xs) =
     bind_err (item x) (\<lambda>y. bind_err (parse_items item xs) (\<lambda>ys. Inr (y # ys)))"

definition z_array :: "schema \<Rightarrow> schema" where
  "z_array item v =
     (case v of Arr xs \<Rightarrow> bind_err (parse_items item xs) (\<lambda>ys. Inr (Arr ys)) | _ \<Rightarrow> Inl ZodError)"

primrec parse_shape ::
  "(string \<times> schema) list \<Rightarrow> (string \<times> jsval) list \<Rightarrow> error + (string \<times> jsval) list" where
  "parse_shape [] kvs = Inr []"
| "parse_shape (f # shape) kvs =
     bind_err (snd f (case map_of kvs (fst f) of None \<Rightarrow> Undefined | Some v \<Rightarrow> v)) (\<lambda>out.
       bind_err (parse_shape shape kvs) (\<lambda>rest.
         Inr (if out \<noteq> Undefined \<or> fst f \<in> set (map fst kvs) then (fst f, out) # rest else rest)))"

definition z_object :: "(string \<times> schema) list \<Rightarrow> schema" where
  "z_object shape v =
     (case v of Obj kvs \<Rightarrow> bind_err (parse_shape shape kvs) (\<lambda>out. Inr (Obj out)) | _ \<Rightarrow> Inl ZodError)"

text \<open>A schema that throws nothing but the validation error.\<close>

definition throws_ZodError_only :: "schema \<Rightarrow> bool" where
  "throws_ZodError_only s \<longleftrightarrow> (\<forall>v err. s v = Inl err \<longrightarrow> err = ZodError)"

definition robloxUserSchema :: schema where
  "robloxUserSchema =
     z_object
       [(''id'', z_number),
        (''name'', z_string),
        (''displayName'', z_optional z_string),
        (''description'', z_default (z_optional z_string) (Str [])),
        (''created'', z_optional z_string),
        (''isBanned'', z_default (z_optional z_boolean) (Bool False)),
        (''externalAppDisplayName'', z_optional (z_nullable z_string)),
        (''hasVerifiedBadge'', z_default (z_optional z_boolean) (Bool False)),
        (''previousUsernames'', z_optional (z_array z_string)),
        (''stats'',
           z_optional
             (z_object
                [(''friends'', z_number), (''followers'', z_number), (''following'', z_number)]))]"

definition robloxFriendsCountSchema :: schema where
  "robloxFriendsCountSchema = z_object [(''count'', z_number)]"

definition robloxAvatarSchema :: schema where
  "robloxAvatarSchema =
     z_object
       [(''data'',
           z_array
             (z_object
                [(''targetId'', z_optional z_number),
                 (''state'', z_optional z_string),
                 (''imageUrl'', z_string)]))]"

section \<open>The environment of a request\<close>

text \<open>
  What a handler reads from outside the repository. \<open>upstream\<close> answers an outbound
  call with the parsed body of a 2xx response, or with the rejection of the HTTP client
  (\<open>Inl st\<close>, where \<open>st\<close> is the status of the answer, if there was one).
  \<open>clock n\<close> is the time, in milliseconds, of the \<open>n\<close>-th evaluation of
  \<^verbatim>\<open>new Date()\<close> in the request, counted from 0. \<open>toISOString\<close> renders an instant as
  the text stored in a \<^verbatim>\<open>timestamp\<close> column and \<open>date_parse\<close> is
  \<^verbatim>\<open>new Date(text).getTime()\<close>, which is \<^verbatim>\<open>NaN\<close> for a text that is not a date.
  \<open>string_to_number\<close> is the conversion of a string in a numeric comparison.
\<close>

datatype relation = Friends | Followers | Followings

datatype request =
    GetUser string
  | GetAvatarHeadshot string
  | GetUsernameHistory string
  | GetCount string relation
  | PostUsernames string

record env =
  upstream :: "request \<Rightarrow> nat option + jsval"
  clock :: "nat \<Rightarrow> int"
  toISOString :: "int \<Rightarrow> string"
  date_parse :: "string \<Rightarrow> jsnum"
  string_to_number :: "string \<Rightarrow> jsnum"

definition axios :: "env \<Rightarrow> request \<Rightarrow> error + jsval" where
  "axios e req = (case upstream e req of Inl st \<Rightarrow> Inl (AxiosError st) | Inr d \<Rightarrow> Inr d)"

text \<open>
  The answer of a handler: \<open>Json st body\<close> is \<^verbatim>\<open>res.status(st).json(body)\<close> (status
  200 when the code sets none); \<open>Failure st text err\<close> is the body
  \<^verbatim>\<open>{error: text, details: err.message}\<close>; \<open>Unhandled err\<close> is an exception that
  leaves the handler, so that no answer is sent.
\<close>

datatype response =
    Json nat jsval
  | Failure nat string error
  | Unhandled error

record outcome =
  reply :: response
  store_after :: store
  calls :: "request list"

fun truthy :: "jsval \<Rightarrow> bool" where
  "truthy Undefined = False"
| "truthy Null = False"
| "truthy (Bool b) = b"
| "truthy (Number (Num i)) = (i \<noteq> 0)"
| "truthy (Number NaN) = False"
| "truthy (Number PosInfinity) = True"
| "truthy (Number NegInfinity) = True"
| "truthy (Str s) = (s \<noteq> [])"
| "truthy (Arr xs) = True"
| "truthy (Obj kvs) = True"

text \<open>
  \<open>gt_zero e v\<close> is \<^verbatim>\<open>v > 0\<close>: the value is converted to a number first, an array
  and an object through their string.
\<close>

fun jsnum_gt_zero :: "jsnum \<Rightarrow> bool" where
  "jsnum_gt_zero (Num i) = (0 < i)"
| "jsnum_gt_zero NaN = False"
| "jsnum_gt_zero PosInfinity = True"
| "jsnum_gt_zero NegInfinity = False"

fun gt_zero :: "env \<Rightarrow> jsval \<Rightarrow> error + bool" where
  "gt_zero e Undefined = Inr False"
| "gt_zero e Null = Inr False"
| "gt_zero e (Bool b) = Inr b"
| "gt_zero e (Number n) = Inr (jsnum_gt_zero n)"
| "gt_zero e (Str s) = Inr (jsnum_gt_zero (string_to_number e s))"
| "gt_zero e (Arr xs) = bind_err (toString (Arr xs)) (\<lambda>s. Inr (jsnum_gt_zero (string_to_number e s)))"
| "gt_zero e (Obj kvs) = bind_err (toString (Obj kvs)) (\<lambda>s. Inr (jsnum_gt_zero (string_to_number e s)))"

section \<open>The User Record Resolver: \<^verbatim>\<open>GET /api/users/:userId\<close>\<close>

text \<open>Lines 44 to 55: the avatar of a validated profile, best effort.\<close>

definition fetch_avatar :: "env \<Rightarrow> string \<Rightarrow> jsval" where
  "fetch_avatar e userId =
     (case bind_err (axios e (GetAvatarHeadshot userId)) (\<lambda>body.
             bind_err (robloxAvatarSchema body) (\<lambda>avatarData.
             bind_err (get_prop avatarData ''data'') (\<lambda>items.
             bind_err (get_prop items ''length'') (\<lambda>n.
             bind_err (gt_zero e n) (\<lambda>some.
               if some then bind_err (index0 items) (\<lambda>item. get_prop item ''imageUrl'')
               else Inr Null)))))
      of Inl err \<Rightarrow> Null | Inr url \<Rightarrow> url)"

text \<open>
  Lines 79 to 87: the names of the username history. \<^verbatim>\<open>map\<close> exists on arrays only,
  and the variable keeps \<^verbatim>\<open>[]\<close> when anything throws.
\<close>

primrec item_names :: "jsval list \<Rightarrow> error + jsval list" where
  "item_names [] = Inr []"
| "item_names (x # xs) =
     bind_err (get_prop x ''name'') (\<lambda>n. bind_err (item_names xs) (\<lambda>ns. Inr (n # ns)))"

definition previous_usernames :: "env \<Rightarrow> string \<Rightarrow> jsval" where
  "previous_usernames e userId =
     (case bind_err (axios e (GetUsernameHistory userId)) (\<lambda>body.
             bind_err (get_prop body ''data'') (\<lambda>d.
               case d of Arr items \<Rightarrow> item_names items | _ \<Rightarrow> Inl TypeError))
      of Inl err \<Rightarrow> Arr [] | Inr names \<Rightarrow> Arr names)"

text \<open>
  Lines 90 to 110: the three counters, requested together; the zeros stay when one of the
  requests is rejected or a body has no properties to read.
\<close>

definition terminated_stats :: "env \<Rightarrow> string \<Rightarrow> jsval" where
  "terminated_stats e userId =
     (case bind_err (axios e (GetCount userId Friends)) (\<lambda>friends.
             bind_err (axios e (GetCount userId Followers)) (\<lambda>followers.
             bind_err (axios e (GetCount userId Followings)) (\<lambda>following.
             bind_err (get_prop friends ''count'') (\<lambda>a.
             bind_err (get_prop followers ''count'') (\<lambda>b.
             bind_err (get_prop following ''count'') (\<lambda>c.
               Inr (Obj [(''friends'', a), (''followers'', b), (''following'', c)])))))))
      of Inl err \<Rightarrow>
           Obj [(''friends'', Number (Num 0)), (''followers'', Number (Num 0)),
                (''following'', Number (Num 0))]
       | Inr userStats \<Rightarrow> userStats)"

text \<open>Lines 113 to 123: the avatar of a terminated account, read without validation.\<close>

definition archived_avatar :: "env \<Rightarrow> string \<Rightarrow> jsval" where
  "archived_avatar e userId =
     (case bind_err (axios e (GetAvatarHeadshot userId)) (\<lambda>body.
             bind_err (get_prop body ''data'') (\<lambda>d.
               if \<not> truthy d then Inr Null
               else
                 bind_err (get_prop d ''length'') (\<lambda>n.
                 bind_err (gt_zero e n) (\<lambda>some.
                   if some then bind_err (index0 d) (\<lambda>item. get_prop item ''imageUrl'')
                   else Inr Null))))
      of Inl err \<Rightarrow> Null | Inr url \<Rightarrow> url)"

definition terminated_userData :: "string \<Rightarrow> jsval \<Rightarrow> jsval \<Rightarrow> jsval" where
  "terminated_userData userId previousUsernames userStats =
     Obj [(''id'', Number (parseInt userId)),
          (''name'', Str ''Terminated Account''),
          (''displayName'', Str ''Terminated Account''),
          (''description'',
             Str ''This account has been terminated for violating Roblox Terms of Service.''),
          (''isBanned'', Bool True),
          (''previousUsernames'', previousUsernames),
          (''stats'', userStats)]"

text \<open>
  Lines 77 to 151, the branch of the \<^verbatim>\<open>catch\<close> for status 400. \<open>k\<close> counts the
  evaluations of \<^verbatim>\<open>new Date()\<close> so far and \<open>sent\<close> the calls issued so far.
  An exception of the storage layer here is caught by nothing.
\<close>

definition terminated_recovery :: "env \<Rightarrow> store \<Rightarrow> nat \<Rightarrow> request list \<Rightarrow> string \<Rightarrow> outcome" where
  "terminated_recovery e db k sent userId =
     (let previousUsernames = previous_usernames e userId;
          userStats = terminated_stats e userId;
          archivedAvatarUrl = archived_avatar e userId;
          userData = terminated_userData userId previousUsernames userStats;
          cacheData =
            \<lparr>ins_userId = userId, ins_userData = userData,
             ins_avatarUrl = archivedAvatarUrl,
             ins_timestamp = Some (toISOString e (clock e k)),
             ins_isTerminated = Some (Some True)\<rparr>;
          issued =
            sent @ [GetUsernameHistory userId, GetCount userId Friends, GetCount userId Followers,
                    GetCount userId Followings, GetAvatarHeadshot userId]
      in case addUserCache db cacheData of
           (Inl err, db') \<Rightarrow> \<lparr>reply = Unhandled err, store_after = db', calls = issued\<rparr>
         | (Inr stored, db') \<Rightarrow>
             \<lparr>reply =
                Json 200
                  (Obj [(''source'', Str ''api''),
                        (''data'', userData),
                        (''avatarUrl'', archivedAvatarUrl),
                        (''isTerminated'', Bool True),
                        (''stats'', userStats),
                        (''previousUsernames'', previousUsernames)]),
              store_after = db', calls = issued\<rparr>)"

text \<open>Lines 74 to 157: the \<^verbatim>\<open>catch\<close> of the handler.\<close>

definition on_error :: "env \<Rightarrow> store \<Rightarrow> nat \<Rightarrow> request list \<Rightarrow> string \<Rightarrow> error \<Rightarrow> outcome" where
  "on_error e db k sent userId err =
     (if response_status err = Some 400 then terminated_recovery e db k sent userId
      else \<lparr>reply = Failure 500 ''Failed to fetch user data'' err, store_after = db, calls = sent\<rparr>)"

text \<open>
  \<^verbatim>\<open>validatedData.isBanned || false\<close>; the validated profile always has the boolean.
\<close>

definition isBanned_or_false :: "jsval \<Rightarrow> bool" where
  "isBanned_or_false validatedData =
     (case get_prop validatedData ''isBanned'' of Inr (Bool b) \<Rightarrow> b | _ \<Rightarrow> False)"

text \<open>Lines 36 to 73: fetch, validate, fetch the avatar, save, answer.\<close>

definition fetch_user :: "env \<Rightarrow> store \<Rightarrow> nat \<Rightarrow> string \<Rightarrow> outcome" where
  "fetch_user e db k userId =
     (case axios e (GetUser userId) of
        Inl err \<Rightarrow> on_error e db k [GetUser userId] userId err
      | Inr userData \<Rightarrow>
          (case robloxUserSchema userData of
             Inl err \<Rightarrow> on_error e db k [GetUser userId] userId err
           | Inr validatedData \<Rightarrow>
               let avatarUrl = fetch_avatar e userId;
                   sent = [GetUser userId, GetAvatarHeadshot userId];
                   cacheData =
                     \<lparr>ins_userId = userId, ins_userData = validatedData,
                      ins_avatarUrl = avatarUrl,
                      ins_timestamp = Some (toISOString e (clock e k)),
                      ins_isTerminated = Some (Some (isBanned_or_false validatedData))\<rparr>
               in case addUserCache db cacheData of
                    (Inl err, db') \<Rightarrow> on_error e db' (k + 1) sent userId err
                  | (Inr stored, db') \<Rightarrow>
                      \<lparr>reply =
                         Json 200
                           (Obj [(''source'', Str ''api''),
                                 (''data'', validatedData),
                                 (''avatarUrl'', avatarUrl),
                                 (''isTerminated'', Bool (isBanned_or_false validatedData))]),
                       store_after = db', calls = sent\<rparr>))"

text \<open>
  Line 27: the age of a cached row. A comparison with \<^verbatim>\<open>NaN\<close> is false, so a row whose
  timestamp is not a date is never fresh. (The time of a date is never infinite; the
  two cases are the comparisons of JavaScript.)
\<close>

definition fresh :: "env \<Rightarrow> cache_row \<Rightarrow> bool" where
  "fresh e cachedUser =
     (case date_parse e (uc_timestamp cachedUser) of
        NaN \<Rightarrow> False
      | Num t \<Rightarrow> clock e 0 - t < 3600000
      | PosInfinity \<Rightarrow> True
      | NegInfinity \<Rightarrow> False)"

definition cache_response :: "cache_row \<Rightarrow> jsval" where
  "cache_response cachedUser =
     Obj [(''source'', Str ''cache''),
          (''data'', uc_userData cachedUser),
          (''avatarUrl'', uc_avatarUrl cachedUser),
          (''isTerminated'',
             (case uc_isTerminated cachedUser of None \<Rightarrow> Null | Some b \<Rightarrow> Bool b))]"

definition get_user :: "env \<Rightarrow> store \<Rightarrow> string \<Rightarrow> outcome" where
  "get_user e db userId =
     (case getUserCache db userId of
        None \<Rightarrow> fetch_user e db 0 userId
      | Some cachedUser \<Rightarrow>
          if fresh e cachedUser
          then \<lparr>reply = Json 200 (cache_response cachedUser), store_after = db, calls = []\<rparr>
          else fetch_user e db 1 userId)"

section \<open>The Username Resolver: \<^verbatim>\<open>POST /api/users/by-username\<close>\<close>

text \<open>
  The body of the request carries a string \<^verbatim>\<open>username\<close> or none (\<open>None\<close>). Lines 186
  to 194, after the lookup has answered: the outcome is an answer, or an exception for
  the \<^verbatim>\<open>catch\<close>.
\<close>

definition username_answer :: "jsval \<Rightarrow> error + response" where
  "username_answer body =
     bind_err (get_prop body ''data'') (\<lambda>d.
     bind_err (get_prop d ''length'') (\<lambda>n.
       if n = Number (Num 0) then Inr (Json 404 (Obj [(''error'', Str ''User not found'')]))
       else
         bind_err (index0 d) (\<lambda>first.
         bind_err (get_prop first ''id'') (\<lambda>i.
         bind_err (toString i) (\<lambda>userId.
           Inr (Json 200 (Obj [(''userId'', Str userId)])))))))"

definition history_entry :: "string \<Rightarrow> string \<Rightarrow> bool \<Rightarrow> insert_search_history" where
  "history_entry username time ok =
     \<lparr>new_query = username, new_type = ''username'', new_timestamp = time, new_success = Some ok\<rparr>"

definition by_username :: "env \<Rightarrow> store \<Rightarrow> string option \<Rightarrow> outcome" where
  "by_username e db body_username =
     (case body_username of
        None \<Rightarrow>
          \<lparr>reply = Json 400 (Obj [(''error'', Str ''Username is required'')]),
           store_after = db, calls = []\<rparr>
      | Some username \<Rightarrow>
          if username = [] then
            \<lparr>reply = Json 400 (Obj [(''error'', Str ''Username is required'')]),
             store_after = db, calls = []\<rparr>
          else
            let db1 = snd (addSearchHistory db (history_entry username (toISOString e (clock e 0)) True))
            in case bind_err (axios e (PostUsernames username)) username_answer of
                 Inr answer \<Rightarrow> \<lparr>reply = answer, store_after = db1, calls = [PostUsernames username]\<rparr>
               | Inl err \<Rightarrow>
                   \<lparr>reply = Failure 500 ''Failed to fetch user ID'' err,
                    store_after =
                      snd (addSearchHistory db1
                             (history_entry username (toISOString e (clock e 1)) False)),
                    calls = [PostUsernames username]\<rparr>)"

section \<open>The Stats Aggregator: \<^verbatim>\<open>GET /api/users/:userId/stats\<close>\<close>

definition stats_sentinel :: jsval where
  "stats_sentinel =
     Obj [(''friends'', Str ''N/A''), (''followers'', Str ''N/A''), (''following'', Str ''N/A'')]"

text \<open>
  The three requests are issued before any answer is awaited. The handler answers with
  status 200 on both paths.
\<close>

definition get_stats :: "env \<Rightarrow> store \<Rightarrow> string \<Rightarrow> outcome" where
  "get_stats e db userId =
     \<lparr>reply =
        Json 200
          (case bind_err (axios e (GetCount userId Friends)) (\<lambda>friends.
                  bind_err (axios e (GetCount userId Followers)) (\<lambda>followers.
                  bind_err (axios e (GetCount userId Followings)) (\<lambda>following.
                  bind_err (robloxFriendsCountSchema friends) (\<lambda>friendsData.
                  bind_err (robloxFriendsCountSchema followers) (\<lambda>followersData.
                  bind_err (robloxFriendsCountSchema following) (\<lambda>followingData.
                  bind_err (get_prop friendsData ''count'') (\<lambda>a.
                  bind_err (get_prop followersData ''count'') (\<lambda>b.
                  bind_err (get_prop followingData ''count'') (\<lambda>c.
                    Inr (Obj [(''friends'', a), (''followers'', b), (''following'', c)]))))))))))
           of Inl err \<Rightarrow> stats_sentinel | Inr counts \<Rightarrow> counts),
      store_after = db,
      calls = [GetCount userId Friends, GetCount userId Followers, GetCount userId Followings]\<rparr>"

section \<open>The search history: \<^verbatim>\<open>GET /api/search-history\<close>\<close>

text \<open>
  Line 261: the limit is \<^verbatim>\<open>parseInt\<close> of the query parameter \<^verbatim>\<open>limit\<close>, a string, and
  10 when the parameter is absent (\<open>None\<close>) or empty. Nothing is checked before the
  number goes to the store.
\<close>

definition query_limit :: "string option \<Rightarrow> jsnum" where
  "query_limit param =
     (case param of None \<Rightarrow> Num 10 | Some s \<Rightarrow> if s = [] then Num 10 else parseInt s)"

definition search_row_json :: "search_row \<Rightarrow> jsval" where
  "search_row_json r =
     Obj [(''id'', Number (Num (int (sh_id r)))),
          (''query'', Str (sh_query r)),
          (''type'', Str (sh_type r)),
          (''timestamp'', Str (sh_timestamp r)),
          (''success'', Bool (sh_success r))]"

definition search_history :: "store \<Rightarrow> string option \<Rightarrow> response" where
  "search_history db param =
     (case getRecentSearches db (Some (query_limit param)) of
        Inr searches \<Rightarrow> Json 200 (Arr (map search_row_json searches))
      | Inl err \<Rightarrow> Failure 500 ''Failed to fetch search history'' err)"

section \<open>Notions used in the statements\<close>

text \<open>The names of the properties of the body of an answer, in order.\<close>

definition response_fields :: "response \<Rightarrow> string list" where
  "response_fields r = (case r of Json st (Obj kvs) \<Rightarrow> map fst kvs | _ \<Rightarrow> [])"

text \<open>A string whose first character is a decimal digit.\<close>

definition begins_with_digit :: "string \<Rightarrow> bool" where
  "begins_with_digit s = (case s of [] \<Rightarrow> False | c # cs \<Rightarrow> radix_digit 10 c)"

section \<open>Example inputs\<close>

text \<open>
  Concrete stores, payloads and environments at which the theorems below are
  instantiated. The date functions of the example environment are a table of the
  instants the examples read: 1714557600000 is 2024-05-01T10:00:00.000Z.
\<close>

definition example_row :: cache_row where
  "example_row =
     \<lparr>uc_id = 1, uc_userId = ''42'',
      uc_userData = Obj [(''id'', Number (Num 42)), (''name'', Str ''builderman'')],
      uc_avatarUrl = Null, uc_timestamp = ''2024-05-01T10:00:00.000Z'',
      uc_isTerminated = Some False\<rparr>"

definition example_store :: store where
  "example_store =
     \<lparr>searchHistory = [], searchHistory_seq = 1, userCache = [example_row], userCache_seq = 2\<rparr>"

definition empty_store :: store where
  "empty_store = \<lparr>searchHistory = [], searchHistory_seq = 1, userCache = [], userCache_seq = 1\<rparr>"

definition avatar_only :: insert_user_cache where
  "avatar_only =
     \<lparr>ins_userId = ''42'', ins_userData = Undefined, ins_avatarUrl = Str ''https://t.example/a.png'',
      ins_timestamp = None, ins_isTerminated = None\<rparr>"

definition full_record :: insert_user_cache where
  "full_record =
     \<lparr>ins_userId = ''42'', ins_userData = Obj [(''name'', Str ''builderman''), (''id'', Number (Num 42))],
      ins_avatarUrl = Undefined, ins_timestamp = Some ''2024-05-01T11:00:00.000Z'',
      ins_isTerminated = None\<rparr>"

definition user_doc :: jsval where
  "user_doc = Obj [(''name'', Str ''builderman''), (''id'', Number (Num 156)), (''unknown'', Null)]"

definition user_doc_no_id :: jsval where
  "user_doc_no_id = Obj [(''name'', Str ''builderman'')]"

definition user_doc_bad_name :: jsval where
  "user_doc_bad_name = Obj [(''id'', Number (Num 156)), (''name'', Number (Num 7))]"

definition example_env :: env where
  "example_env =
     \<lparr>upstream = (\<lambda>req. Inl None),
      clock = (\<lambda>n. 1714557600000 + 1000 * int n),
      toISOString =
        (\<lambda>t. if t = 1714557600000 then ''2024-05-01T10:00:00.000Z''
             else if t = 1714557601000 then ''2024-05-01T10:00:01.000Z''
             else ''1970-01-01T00:00:00.000Z''),
      date_parse =
        (\<lambda>s. if s = ''2024-05-01T10:00:00.000Z'' then Num 1714557600000
             else if s = ''2024-05-01T10:00:01.000Z'' then Num 1714557601000
             else if s = ''1970-01-01T00:00:00.000Z'' then Num 0
             else NaN),
      string_to_number =
        (\<lambda>s. if list_all (radix_digit 10) s then Num (digits_value 10 s) else NaN)\<rparr>"

definition counts_env :: env where
  "counts_env =
     example_env\<lparr>upstream := (\<lambda>req. case req of
          GetCount u Friends \<Rightarrow> Inr (Obj [(''count'', Number (Num 12))])
        | GetCount u Followers \<Rightarrow> Inr (Obj [(''count'', Number (Num 340))])
        | GetCount u Followings \<Rightarrow> Inr (Obj [(''count'', Number (Num 5))])
        | _ \<Rightarrow> Inl None)\<rparr>"

definition friends_down_env :: env where
  "friends_down_env =
     counts_env\<lparr>upstream := (\<lambda>req. case req of
          GetCount u Friends \<Rightarrow> Inl (Some 503)
        | GetCount u Followers \<Rightarrow> Inr (Obj [(''count'', Number (Num 340))])
        | GetCount u Followings \<Rightarrow> Inr (Obj [(''count'', Number (Num 5))])
        | _ \<Rightarrow> Inl None)\<rparr>"

definition later_env :: env where
  "later_env = example_env\<lparr>clock := (\<lambda>n. 1714561199999 + int n)\<rparr>"

definition terminated_env :: env where
  "terminated_env =
     example_env\<lparr>upstream := (\<lambda>req. case req of GetUser u \<Rightarrow> Inl (Some 400) | _ \<Rightarrow> Inl (Some 404))\<rparr>"

definition server_error_env :: env where
  "server_error_env = example_env\<lparr>upstream := (\<lambda>req. Inl (Some 503))\<rparr>"

definition invalid_profile_env :: env where
  "invalid_profile_env = example_env\<lparr>upstream := (\<lambda>req. Inr user_doc_no_id)\<rparr>"

definition profile_env :: env where
  "profile_env =
     example_env\<lparr>upstream := (\<lambda>req. case req of GetUser u \<Rightarrow> Inr user_doc | _ \<Rightarrow> Inl None)\<rparr>"

definition terminated_abc_body :: jsval where
  "terminated_abc_body =
     Obj [(''source'', Str ''api''),
          (''data'',
             Obj [(''id'', Number NaN),
                  (''name'', Str ''Terminated Account''),
                  (''displayName'', Str ''Terminated Account''),
                  (''description'',
                     Str ''This account has been terminated for violating Roblox Terms of Service.''),
                  (''isBanned'', Bool True),
                  (''previousUsernames'', Arr []),
                  (''stats'',
                     Obj [(''friends'', Number (Num 0)), (''followers'', Number (Num 0)),
                          (''following'', Number (Num 0))])]),
          (''avatarUrl'', Null),
          (''isTerminated'', Bool True),
          (''stats'',
             Obj [(''friends'', Number (Num 0)), (''followers'', Number (Num 0)),
                  (''following'', Number (Num 0))]),
          (''previousUsernames'', Arr [])]"

definition next_request_env :: env where
  "next_request_env = terminated_env\<lparr>clock := (\<lambda>n. 1714557660000 + int n)\<rparr>"

definition lookup_env :: env where
  "lookup_env =
     example_env\<lparr>upstream := (\<lambda>req. case req of
          PostUsernames u \<Rightarrow>
            Inr (Obj [(''data'',
                       Arr [Obj [(''requestedUsername'', Str u), (''hasVerifiedBadge'', Bool False),
                                 (''id'', Number (Num 456)), (''name'', Str u),
                                 (''displayName'', Str u)]])])
        | _ \<Rightarrow> Inl None)\<rparr>"

definition no_match_env :: env where
  "no_match_env =
     example_env\<lparr>upstream := (\<lambda>req. case req of
          PostUsernames u \<Rightarrow> Inr (Obj [(''data'', Arr [])])
        | _ \<Rightarrow> Inl None)\<rparr>"

definition robloxuser123_entry :: search_row where
  "robloxuser123_entry =
     \<lparr>sh_id = 1, sh_query = ''robloxuser123'', sh_type = ''username'',
      sh_timestamp = ''2024-05-01T10:00:00.000Z'', sh_success = True\<rparr>"

definition robloxuser123_failed :: search_row where
  "robloxuser123_failed =
     \<lparr>sh_id = 2, sh_query = ''robloxuser123'', sh_type = ''username'',
      sh_timestamp = ''2024-05-01T10:00:01.000Z'', sh_success = False\<rparr>"

definition null_profile :: insert_user_cache where
  "null_profile =
     \<lparr>ins_userId = ''42'', ins_userData = Null, ins_avatarUrl = Undefined,
      ins_timestamp = Some ''2024-05-01T11:00:00.000Z'', ins_isTerminated = None\<rparr>"

definition three_searches :: store where
  "three_searches =
     \<lparr>searchHistory =
        [\<lparr>sh_id = 1, sh_query = ''builderman'', sh_type = ''username'',
          sh_timestamp = ''2024-05-01T10:00:01.000Z'', sh_success = True\<rparr>,
         \<lparr>sh_id = 2, sh_query = ''robloxuser123'', sh_type = ''username'',
          sh_timestamp = ''2024-05-01T10:00:00.000Z'', sh_success = True\<rparr>,
         \<lparr>sh_id = 3, sh_query = ''nobody'', sh_type = ''username'',
          sh_timestamp = ''2024-05-01T10:00:02.000Z'', sh_success = False\<rparr>],
      searchHistory_seq = 4, userCache = [], userCache_seq = 1\<rparr>"


section \<open>Properties of the Persistence Store\<close>

subsection \<open>The cache table\<close>

lemma filter_ConsD: "filter P xs = y # ys \<Longrightarrow> y \<in> set xs \<and> P y"
  by (auto dest!: filter_eq_ConsD)

lemma getUserCache_None_iff:
  "getUserCache db u = None \<longleftrightarrow> u \<notin> set (map uc_userId (userCache db))"
proof (cases "filter (\<lambda>r. uc_userId r = u) (userCache db)")
  case Nil
  then show ?thesis by (auto simp: getUserCache_def filter_empty_conv)
next
  case (Cons y ys)
  from filter_ConsD [OF this] show ?thesis using Cons by (auto simp: getUserCache_def)
qed

lemma getUserCache_SomeD:
  "getUserCache db u = Some r \<Longrightarrow> r \<in> set (userCache db) \<and> uc_userId r = u"
  unfolding getUserCache_def
  by (auto split: list.splits dest!: filter_ConsD)

lemma uc_userId_set_columns:
  "uc_userId (set_columns (as_partial c) r) = ins_userId c"
  by (simp add: set_columns_def as_partial_def)

lemma map_userId_update:
  "map uc_userId (map (\<lambda>x. if uc_userId x = ins_userId c then set_columns (as_partial c) x else x) rows)
     = map uc_userId rows"
  by (induction rows) (simp_all add: uc_userId_set_columns)

lemma filter_update_same:
  "filter (\<lambda>x. uc_userId x = ins_userId c)
      (map (\<lambda>x. if uc_userId x = ins_userId c then set_columns (as_partial c) x else x) rows)
   = map (set_columns (as_partial c)) (filter (\<lambda>x. uc_userId x = ins_userId c) rows)"
  by (induction rows) (simp_all add: uc_userId_set_columns)

lemma filter_update_other:
  "u \<noteq> ins_userId c \<Longrightarrow>
   filter (\<lambda>x. uc_userId x = u)
      (map (\<lambda>x. if uc_userId x = ins_userId c then set_columns (as_partial c) x else x) rows)
   = filter (\<lambda>x. uc_userId x = u) rows"
  by (induction rows) (auto simp: uc_userId_set_columns)

lemma not_no_values_as_partial: "\<not> no_values (as_partial c)"
  by (simp add: no_values_def as_partial_def)

lemma addUserCache_existing:
  assumes inv: "distinct (map uc_userId (userCache db))"
    and ex: "getUserCache db (ins_userId c) = Some r"
    and nn: "ins_userData c \<noteq> Null"
  shows "addUserCache db c =
     (Inr (Some (set_columns (as_partial c) r)),
      db\<lparr>userCache := map (\<lambda>x. if uc_userId x = ins_userId c then set_columns (as_partial c) x else x)
             (userCache db)\<rparr>)"
proof -
  from ex obtain rest where f: "filter (\<lambda>x. uc_userId x = ins_userId c) (userCache db) = r # rest"
    by (auto simp: getUserCache_def split: list.splits)
  have p: "set_userData (as_partial c) \<noteq> Null"
    using nn by (simp add: as_partial_def)
  show ?thesis
    using inv ex f p
    by (simp add: addUserCache_def updateUserCache_def not_no_values_as_partial map_userId_update
        del: map_map)
qed

lemma addUserCache_existing_null:
  assumes ex: "getUserCache db (ins_userId c) = Some r"
    and null: "ins_userData c = Null"
  shows "addUserCache db c = (Inl NotNullViolation, db)"
proof -
  from ex obtain rest where f: "filter (\<lambda>x. uc_userId x = ins_userId c) (userCache db) = r # rest"
    by (auto simp: getUserCache_def split: list.splits)
  have p: "set_userData (as_partial c) = Null"
    using null by (simp add: as_partial_def)
  show ?thesis
    using ex f p
    by (simp add: addUserCache_def updateUserCache_def not_no_values_as_partial)
qed

lemma addUserCache_refused:
  assumes none: "getUserCache db (ins_userId c) = None"
    and missing: "ins_userData c = Undefined \<or> ins_userData c = Null \<or> ins_timestamp c = None"
  shows "addUserCache db c = (Inl NotNullViolation, db\<lparr>userCache_seq := userCache_seq db + 1\<rparr>)"
  using assms by (auto simp: addUserCache_def split: option.splits)

lemma getUserCache_after_update:
  assumes ex: "getUserCache db (ins_userId c) = Some r"
  shows "getUserCache
     (db\<lparr>userCache := map (\<lambda>x. if uc_userId x = ins_userId c then set_columns (as_partial c) x else x)
             (userCache db)\<rparr>) u
    = (if u = ins_userId c then Some (set_columns (as_partial c) r) else getUserCache db u)"
proof -
  from ex obtain rest where f: "filter (\<lambda>x. uc_userId x = ins_userId c) (userCache db) = r # rest"
    by (auto simp: getUserCache_def split: list.splits)
  show ?thesis
    using f by (simp add: getUserCache_def filter_update_same filter_update_other del: map_map)
qed

text \<open>
  C4, as amended. Let the cache table hold at most one row per user. When a row for the
  user of the payload exists, \<open>addUserCache\<close> succeeds whatever subset of the other
  properties the payload has, unless it gives \<^verbatim>\<open>userData\<close> as \<^verbatim>\<open>null\<close>: it returns the
  row with the given properties replaced (the \<^verbatim>\<open>userData\<close> by the JSON the column keeps
  of it) and every other column, the key included, as it was (a payload of \<^verbatim>\<open>userId\<close>
  and \<^verbatim>\<open>avatarUrl\<close> leaves \<^verbatim>\<open>userData\<close> alone); the rows of other users and the number
  of rows do not change, and the table still holds at most one row per user. When no row
  exists and the payload has a \<^verbatim>\<open>userData\<close> other than \<^verbatim>\<open>null\<close> and a \<^verbatim>\<open>timestamp\<close>, a
  new row with these values and the defaults of the columns left out is appended and
  returned, and again the table holds at most one row per user. When no row exists and
  the payload has no \<^verbatim>\<open>userData\<close>, or \<^verbatim>\<open>null\<close>, or no \<^verbatim>\<open>timestamp\<close>, the insert is
  refused and nothing is inserted; when a row exists and the payload gives \<^verbatim>\<open>userData\<close>
  as \<^verbatim>\<open>null\<close>, the update is refused and the store stays as it was.
\<close>

theorem addUserCache_upsert:
  assumes inv: "distinct (map uc_userId (userCache db))"
  shows
    "(\<forall>r. getUserCache db (ins_userId c) = Some r \<and> ins_userData c \<noteq> Null \<longrightarrow>
        (\<exists>r' db'. addUserCache db c = (Inr (Some r'), db') \<and>
           uc_id r' = uc_id r \<and>
           uc_userId r' = ins_userId c \<and>
           uc_userData r' =
             (if ins_userData c = Undefined then uc_userData r else jsonb (ins_userData c)) \<and>
           uc_avatarUrl r' =
             (if ins_avatarUrl c = Undefined then uc_avatarUrl r else ins_avatarUrl c) \<and>
           uc_timestamp r' = (case ins_timestamp c of None \<Rightarrow> uc_timestamp r | Some t \<Rightarrow> t) \<and>
           uc_isTerminated r' = (case ins_isTerminated c of None \<Rightarrow> uc_isTerminated r | Some b \<Rightarrow> b) \<and>
           getUserCache db' (ins_userId c) = Some r' \<and>
           (\<forall>u. u \<noteq> ins_userId c \<longrightarrow> getUserCache db' u = getUserCache db u) \<and>
           length (userCache db') = length (userCache db) \<and>
           distinct (map uc_userId (userCache db')))) \<and>
     (\<forall>t. getUserCache db (ins_userId c) = None \<and> ins_userData c \<noteq> Undefined \<and>
          ins_userData c \<noteq> Null \<and> ins_timestamp c = Some t \<longrightarrow>
        (\<exists>r' db'. addUserCache db c = (Inr (Some r'), db') \<and>
           uc_userId r' = ins_userId c \<and>
           uc_userData r' = jsonb (ins_userData c) \<and>
           uc_avatarUrl r' = (if ins_avatarUrl c = Undefined then Null else ins_avatarUrl c) \<and>
           uc_timestamp r' = t \<and>
           uc_isTerminated r' = (case ins_isTerminated c of None \<Rightarrow> Some False | Some b \<Rightarrow> b) \<and>
           userCache db' = userCache db @ [r'] \<and>
           getUserCache db' (ins_userId c) = Some r' \<and>
           distinct (map uc_userId (userCache db')))) \<and>
     (getUserCache db (ins_userId c) = None \<and>
        (ins_userData c = Undefined \<or> ins_userData c = Null \<or> ins_timestamp c = None) \<longrightarrow>
        fst (addUserCache db c) = Inl NotNullViolation \<and>
        userCache (snd (addUserCache db c)) = userCache db) \<and>
     (\<forall>r. getUserCache db (ins_userId c) = Some r \<and> ins_userData c = Null \<longrightarrow>
        addUserCache db c = (Inl NotNullViolation, db))"
proof (intro conjI allI impI)
  fix r
  assume h: "getUserCache db (ins_userId c) = Some r \<and> ins_userData c \<noteq> Null"
  then have ex: "getUserCache db (ins_userId c) = Some r" and nn: "ins_userData c \<noteq> Null"
    by simp_all
  let ?r' = "set_columns (as_partial c) r"
  let ?db' = "db\<lparr>userCache := map (\<lambda>x. if uc_userId x = ins_userId c then set_columns (as_partial c) x else x)
             (userCache db)\<rparr>"
  have 1: "addUserCache db c = (Inr (Some ?r'), ?db')"
    by (rule addUserCache_existing [OF inv ex nn])
  have 2: "getUserCache ?db' u = (if u = ins_userId c then Some ?r' else getUserCache db u)" for u
    by (rule getUserCache_after_update [OF ex])
  have 3: "distinct (map uc_userId (userCache ?db'))"
    using inv by (simp add: map_userId_update del: map_map)
  have 4: "uc_id ?r' = uc_id r \<and>
           uc_userId ?r' = ins_userId c \<and>
           uc_userData ?r' =
             (if ins_userData c = Undefined then uc_userData r else jsonb (ins_userData c)) \<and>
           uc_avatarUrl ?r' =
             (if ins_avatarUrl c = Undefined then uc_avatarUrl r else ins_avatarUrl c) \<and>
           uc_timestamp ?r' = (case ins_timestamp c of None \<Rightarrow> uc_timestamp r | Some t \<Rightarrow> t) \<and>
           uc_isTerminated ?r' = (case ins_isTerminated c of None \<Rightarrow> uc_isTerminated r | Some b \<Rightarrow> b)"
    by (simp add: set_columns_def as_partial_def)
  have 5: "length (userCache ?db') = length (userCache db)"
    by simp
  show "\<exists>r' db'. addUserCache db c = (Inr (Some r'), db') \<and>
           uc_id r' = uc_id r \<and>
           uc_userId r' = ins_userId c \<and>
           uc_userData r' =
             (if ins_userData c = Undefined then uc_userData r else jsonb (ins_userData c)) \<and>
           uc_avatarUrl r' =
             (if ins_avatarUrl c = Undefined then uc_avatarUrl r else ins_avatarUrl c) \<and>
           uc_timestamp r' = (case ins_timestamp c of None \<Rightarrow> uc_timestamp r | Some t \<Rightarrow> t) \<and>
           uc_isTerminated r' = (case ins_isTerminated c of None \<Rightarrow> uc_isTerminated r | Some b \<Rightarrow> b) \<and>
           getUserCache db' (ins_userId c) = Some r' \<and>
           (\<forall>u. u \<noteq> ins_userId c \<longrightarrow> getUserCache db' u = getUserCache db u) \<and>
           length (userCache db') = length (userCache db) \<and>
           distinct (map uc_userId (userCache db'))"
    apply (rule exI [of _ ?r'])
    apply (rule exI [of _ ?db'])
    using 1 2 3 4 5 by simp
next
  fix t
  assume h: "getUserCache db (ins_userId c) = None \<and> ins_userData c \<noteq> Undefined \<and>
          ins_userData c \<noteq> Null \<and> ins_timestamp c = Some t"
  let ?row = "\<lparr>uc_id = userCache_seq db, uc_userId = ins_userId c,
                uc_userData = jsonb (ins_userData c),
                uc_avatarUrl = (if ins_avatarUrl c = Undefined then Null else ins_avatarUrl c),
                uc_timestamp = t,
                uc_isTerminated = (case ins_isTerminated c of None \<Rightarrow> Some False | Some b \<Rightarrow> b)\<rparr>"
  let ?db' = "db\<lparr>userCache := userCache db @ [?row], userCache_seq := userCache_seq db + 1\<rparr>"
  have 1: "addUserCache db c = (Inr (Some ?row), ?db')"
    using h by (simp add: addUserCache_def Let_def)
  from h have none: "filter (\<lambda>x. uc_userId x = ins_userId c) (userCache db) = []"
    by (auto simp: getUserCache_def split: list.splits)
  have 2: "getUserCache ?db' (ins_userId c) = Some ?row"
    using none by (simp add: getUserCache_def)
  from h have "ins_userId c \<notin> set (map uc_userId (userCache db))"
    by (simp add: getUserCache_None_iff)
  with inv have 3: "distinct (map uc_userId (userCache ?db'))"
    by simp
  show "\<exists>r' db'. addUserCache db c = (Inr (Some r'), db') \<and>
           uc_userId r' = ins_userId c \<and>
           uc_userData r' = jsonb (ins_userData c) \<and>
           uc_avatarUrl r' = (if ins_avatarUrl c = Undefined then Null else ins_avatarUrl c) \<and>
           uc_timestamp r' = t \<and>
           uc_isTerminated r' = (case ins_isTerminated c of None \<Rightarrow> Some False | Some b \<Rightarrow> b) \<and>
           userCache db' = userCache db @ [r'] \<and>
           getUserCache db' (ins_userId c) = Some r' \<and>
           distinct (map uc_userId (userCache db'))"
    apply (rule exI [of _ ?row])
    apply (rule exI [of _ ?db'])
    using 1 2 3 by simp
next
  assume h: "getUserCache db (ins_userId c) = None \<and>
        (ins_userData c = Undefined \<or> ins_userData c = Null \<or> ins_timestamp c = None)"
  from addUserCache_refused [OF conjunct1 [OF h] conjunct2 [OF h]]
  show "fst (addUserCache db c) = Inl NotNullViolation"
    and "userCache (snd (addUserCache db c)) = userCache db"
    by simp_all
next
  fix r
  assume h: "getUserCache db (ins_userId c) = Some r \<and> ins_userData c = Null"
  show "addUserCache db c = (Inl NotNullViolation, db)"
    by (rule addUserCache_existing_null [OF conjunct1 [OF h] conjunct2 [OF h]])
qed

theorem addUserCache_upsert_witness:
  "distinct (map uc_userId (userCache example_store)) \<and>
   getUserCache example_store (ins_userId avatar_only) = Some example_row \<and>
   ins_userData avatar_only \<noteq> Null \<and>
   (\<exists>r' db'. addUserCache example_store avatar_only = (Inr (Some r'), db') \<and>
      uc_userData r' = Obj [(''id'', Number (Num 42)), (''name'', Str ''builderman'')] \<and>
      uc_avatarUrl r' = Str ''https://t.example/a.png'' \<and>
      uc_timestamp r' = ''2024-05-01T10:00:00.000Z'' \<and>
      uc_isTerminated r' = Some False \<and>
      getUserCache db' ''42'' = Some r' \<and>
      length (userCache db') = 1) \<and>
   distinct (map uc_userId (userCache empty_store)) \<and>
   getUserCache empty_store (ins_userId full_record) = None \<and>
   (\<exists>r' db'. addUserCache empty_store full_record = (Inr (Some r'), db') \<and>
      uc_userId r' = ''42'' \<and>
      uc_userData r' = Obj [(''id'', Number (Num 42)), (''name'', Str ''builderman'')] \<and>
      uc_avatarUrl r' = Null \<and>
      uc_isTerminated r' = Some False \<and>
      userCache db' = [r']) \<and>
   getUserCache empty_store (ins_userId null_profile) = None \<and>
   ins_userData null_profile = Null \<and>
   fst (addUserCache empty_store null_profile) = Inl NotNullViolation \<and>
   userCache (snd (addUserCache empty_store null_profile)) = [] \<and>
   getUserCache example_store (ins_userId null_profile) = Some example_row \<and>
   addUserCache example_store null_profile = (Inl NotNullViolation, example_store)"
proof -
  have inv: "distinct (map uc_userId (userCache example_store))"
    by (simp add: example_store_def)
  have ex: "getUserCache example_store (ins_userId avatar_only) = Some example_row \<and>
      ins_userData avatar_only \<noteq> Null"
    by (simp add: getUserCache_def example_store_def example_row_def avatar_only_def)
  have inv0: "distinct (map uc_userId (userCache empty_store))"
    by (simp add: empty_store_def)
  have none: "getUserCache empty_store (ins_userId full_record) = None \<and>
      ins_userData full_record \<noteq> Undefined \<and> ins_userData full_record \<noteq> Null \<and>
      ins_timestamp full_record = Some ''2024-05-01T11:00:00.000Z''"
    by (simp add: getUserCache_def empty_store_def full_record_def)
  have j: "jsonb (ins_userData full_record) =
      Obj [(''id'', Number (Num 42)), (''name'', Str ''builderman'')]"
    by (simp add: full_record_def jsonb_def)
  from addUserCache_upsert [OF inv, of avatar_only, THEN conjunct1, rule_format, OF ex]
  obtain r' db' where a: "addUserCache example_store avatar_only = (Inr (Some r'), db')"
    "uc_userData r' =
       (if ins_userData avatar_only = Undefined then uc_userData example_row
        else jsonb (ins_userData avatar_only))"
    "uc_avatarUrl r' =
       (if ins_avatarUrl avatar_only = Undefined then uc_avatarUrl example_row
        else ins_avatarUrl avatar_only)"
    "uc_timestamp r' = (case ins_timestamp avatar_only of None \<Rightarrow> uc_timestamp example_row | Some t \<Rightarrow> t)"
    "uc_isTerminated r' = (case ins_isTerminated avatar_only of None \<Rightarrow> uc_isTerminated example_row | Some b \<Rightarrow> b)"
    "getUserCache db' (ins_userId avatar_only) = Some r'"
    "length (userCache db') = length (userCache example_store)"
    by blast
  from addUserCache_upsert [OF inv0, of full_record, THEN conjunct2, THEN conjunct1, rule_format, OF none]
  obtain r0 db0 where b: "addUserCache empty_store full_record = (Inr (Some r0), db0)"
    "uc_userId r0 = ins_userId full_record"
    "uc_userData r0 = jsonb (ins_userData full_record)"
    "uc_avatarUrl r0 = (if ins_avatarUrl full_record = Undefined then Null else ins_avatarUrl full_record)"
    "uc_isTerminated r0 = (case ins_isTerminated full_record of None \<Rightarrow> Some False | Some b \<Rightarrow> b)"
    "userCache db0 = userCache empty_store @ [r0]"
    by blast
  have first: "\<exists>r' db'. addUserCache example_store avatar_only = (Inr (Some r'), db') \<and>
      uc_userData r' = Obj [(''id'', Number (Num 42)), (''name'', Str ''builderman'')] \<and>
      uc_avatarUrl r' = Str ''https://t.example/a.png'' \<and>
      uc_timestamp r' = ''2024-05-01T10:00:00.000Z'' \<and>
      uc_isTerminated r' = Some False \<and>
      getUserCache db' ''42'' = Some r' \<and>
      length (userCache db') = 1"
    apply (rule exI [of _ r'])
    apply (rule exI [of _ db'])
    using a by (simp add: avatar_only_def example_row_def example_store_def)
  have second: "\<exists>r' db'. addUserCache empty_store full_record = (Inr (Some r'), db') \<and>
      uc_userId r' = ''42'' \<and>
      uc_userData r' = Obj [(''id'', Number (Num 42)), (''name'', Str ''builderman'')] \<and>
      uc_avatarUrl r' = Null \<and>
      uc_isTerminated r' = Some False \<and>
      userCache db' = [r']"
    apply (rule exI [of _ r0])
    apply (rule exI [of _ db0])
    using b j by (simp add: full_record_def empty_store_def)
  have n0: "getUserCache empty_store (ins_userId null_profile) = None"
    and nu: "ins_userData null_profile = Null"
    by (simp_all add: getUserCache_def empty_store_def null_profile_def)
  then have n0': "getUserCache empty_store (ins_userId null_profile) = None \<and>
      (ins_userData null_profile = Undefined \<or> ins_userData null_profile = Null \<or>
       ins_timestamp null_profile = None)"
    by simp
  from addUserCache_upsert [OF inv0, of null_profile, THEN conjunct2, THEN conjunct2, THEN conjunct1,
      rule_format, OF n0']
  have third: "fst (addUserCache empty_store null_profile) = Inl NotNullViolation"
    "userCache (snd (addUserCache empty_store null_profile)) = []"
    by (simp_all add: empty_store_def)
  have n1: "getUserCache example_store (ins_userId null_profile) = Some example_row"
    by (simp add: getUserCache_def example_store_def example_row_def null_profile_def)
  note fourth = addUserCache_upsert [OF inv, of null_profile, THEN conjunct2, THEN conjunct2,
      THEN conjunct2, rule_format, OF conjI [OF n1 nu]]
  from inv ex first inv0 none second n0 nu third n1 fourth show ?thesis by blast
qed

text \<open>
  The claim as stated fails for a payload of \<^verbatim>\<open>userId\<close> and \<^verbatim>\<open>avatarUrl\<close> alone when
  no row exists: the insert violates the \<^verbatim>\<open>notNull\<close> constraint of \<^verbatim>\<open>user_data\<close>, and
  no row is inserted or returned.
\<close>

theorem addUserCache_partial_insert_counterexample:
  "getUserCache empty_store (ins_userId avatar_only) = None \<and>
   fst (addUserCache empty_store avatar_only) = Inl NotNullViolation \<and>
   userCache (snd (addUserCache empty_store avatar_only)) = []"
  by (simp add: addUserCache_def getUserCache_def empty_store_def avatar_only_def)

subsection \<open>The search history\<close>

lemma by_timestamp_desc_sorted:
  "sorted_wrt (\<lambda>a b. sh_timestamp b \<le> sh_timestamp a) (by_timestamp_desc db)"
proof -
  have "sorted (map sh_timestamp (sort_key sh_timestamp (searchHistory db)))"
    by (rule sorted_sort_key)
  then have "sorted_wrt (\<lambda>a b. sh_timestamp a \<le> sh_timestamp b)
      (sort_key sh_timestamp (searchHistory db))"
    by (simp add: sorted_map)
  then show ?thesis
    by (simp add: by_timestamp_desc_def sorted_wrt_rev)
qed

lemma by_timestamp_desc_mset: "mset (by_timestamp_desc db) = mset (searchHistory db)"
  by (simp add: by_timestamp_desc_def)

text \<open>
  C8, as amended. For every limit that is an integer from 0 to \<open>2^63 - 1\<close> and every
  content of the search-history table, whatever the order in which its rows were
  inserted, \<open>getRecentSearches\<close> returns at most \<open>limit\<close> rows, sorted by timestamp
  descending: the first \<open>limit\<close> rows of a descending arrangement of the whole table.
  Without a limit the limit is 10. Whatever the limit, the rows returned are sorted by
  timestamp descending.
\<close>

theorem getRecentSearches_limit_sorted:
  "(0 \<le> n \<and> n < 2 ^ 63 \<longrightarrow>
      (\<exists>rows. getRecentSearches db (Some (Num n)) = Inr rows \<and>
         int (length rows) \<le> n \<and>
         rows = take (nat n) (by_timestamp_desc db))) \<and>
   sorted_wrt (\<lambda>a b. sh_timestamp b \<le> sh_timestamp a) (by_timestamp_desc db) \<and>
   mset (by_timestamp_desc db) = mset (searchHistory db) \<and>
   (\<forall>rows. getRecentSearches db limit = Inr rows \<longrightarrow>
      sorted_wrt (\<lambda>a b. sh_timestamp b \<le> sh_timestamp a) rows) \<and>
   getRecentSearches db None = getRecentSearches db (Some (Num 10))"
proof -
  have 1: "\<exists>rows. getRecentSearches db (Some (Num n)) = Inr rows \<and>
         int (length rows) \<le> n \<and>
         rows = take (nat n) (by_timestamp_desc db)"
    if "0 \<le> n \<and> n < 2 ^ 63"
  proof -
    from that have "int (min (length (by_timestamp_desc db)) (nat n)) \<le> n"
      by linarith
    with that show ?thesis
      by (simp add: getRecentSearches_def)
  qed
  have 2: "sorted_wrt (\<lambda>a b. sh_timestamp b \<le> sh_timestamp a) rows"
    if "getRecentSearches db limit = Inr rows" for rows
  proof -
    from that have "rows = by_timestamp_desc db \<or> (\<exists>m. rows = take m (by_timestamp_desc db))"
      by (auto simp: getRecentSearches_def split: option.splits jsnum.splits if_splits)
    then show ?thesis
      using by_timestamp_desc_sorted [of db] sorted_wrt_take by auto
  qed
  have 3: "getRecentSearches db None = getRecentSearches db (Some (Num 10))"
    by (simp add: getRecentSearches_def)
  from 1 2 3 by_timestamp_desc_sorted by_timestamp_desc_mset show ?thesis by blast
qed

theorem getRecentSearches_limit_sorted_witness:
  "(0::int) \<le> 2 \<and> (2::int) < 2 ^ 63 \<and>
   getRecentSearches three_searches (Some (Num 2)) =
     Inr [\<lparr>sh_id = 3, sh_query = ''nobody'', sh_type = ''username'',
           sh_timestamp = ''2024-05-01T10:00:02.000Z'', sh_success = False\<rparr>,
          \<lparr>sh_id = 1, sh_query = ''builderman'', sh_type = ''username'',
           sh_timestamp = ''2024-05-01T10:00:01.000Z'', sh_success = True\<rparr>] \<and>
   (\<exists>rows. getRecentSearches three_searches (Some (Num 2)) = Inr rows \<and>
      int (length rows) \<le> 2 \<and>
      sorted_wrt (\<lambda>a b. sh_timestamp b \<le> sh_timestamp a) rows)"
proof -
  have h: "(0::int) \<le> 2 \<and> (2::int) < 2 ^ 63" by simp
  note t = getRecentSearches_limit_sorted [of 2 three_searches "Some (Num 2)"]
  from t [THEN conjunct1, rule_format, OF h] obtain rows where
    r: "getRecentSearches three_searches (Some (Num 2)) = Inr rows" "int (length rows) \<le> 2"
    by blast
  from t [THEN conjunct2, THEN conjunct2, THEN conjunct2, THEN conjunct1, rule_format, OF r(1)]
  have s: "sorted_wrt (\<lambda>a b. sh_timestamp b \<le> sh_timestamp a) rows" .
  have v: "getRecentSearches three_searches (Some (Num 2)) =
     Inr [\<lparr>sh_id = 3, sh_query = ''nobody'', sh_type = ''username'',
           sh_timestamp = ''2024-05-01T10:00:02.000Z'', sh_success = False\<rparr>,
          \<lparr>sh_id = 1, sh_query = ''builderman'', sh_type = ''username'',
           sh_timestamp = ''2024-05-01T10:00:01.000Z'', sh_success = True\<rparr>]"
    by (simp add: getRecentSearches_def by_timestamp_desc_def three_searches_def)
  from h v r s show ?thesis by blast
qed

text \<open>
  The claim as stated fails for the limit \<open>-1\<close>, which the route passes on for the query
  \<^verbatim>\<open>limit=-1\<close>: the three rows of the table are returned.
\<close>

theorem getRecentSearches_negative_limit_counterexample:
  "query_limit (Some ''-1'') = Num (- 1) \<and>
   getRecentSearches three_searches (Some (Num (- 1))) =
     Inr [\<lparr>sh_id = 3, sh_query = ''nobody'', sh_type = ''username'',
           sh_timestamp = ''2024-05-01T10:00:02.000Z'', sh_success = False\<rparr>,
          \<lparr>sh_id = 1, sh_query = ''builderman'', sh_type = ''username'',
           sh_timestamp = ''2024-05-01T10:00:01.000Z'', sh_success = True\<rparr>,
          \<lparr>sh_id = 2, sh_query = ''robloxuser123'', sh_type = ''username'',
           sh_timestamp = ''2024-05-01T10:00:00.000Z'', sh_success = True\<rparr>]"
proof -
  have "parseInt ''-1'' = Num (- 1)"
    by (simp add: parseInt_def strip_sign_def strip_hex_prefix_def white_space_def radix_digit_def
        digit_value_def digits_value_def nearest_double_def)
  then have 1: "query_limit (Some ''-1'') = Num (- 1)"
    by (simp add: query_limit_def)
  have 2: "getRecentSearches three_searches (Some (Num (- 1))) =
     Inr [\<lparr>sh_id = 3, sh_query = ''nobody'', sh_type = ''username'',
           sh_timestamp = ''2024-05-01T10:00:02.000Z'', sh_success = False\<rparr>,
          \<lparr>sh_id = 1, sh_query = ''builderman'', sh_type = ''username'',
           sh_timestamp = ''2024-05-01T10:00:01.000Z'', sh_success = True\<rparr>,
          \<lparr>sh_id = 2, sh_query = ''robloxuser123'', sh_type = ''username'',
           sh_timestamp = ''2024-05-01T10:00:00.000Z'', sh_success = True\<rparr>]"
    by (simp add: getRecentSearches_def by_timestamp_desc_def three_searches_def)
  from 1 2 show ?thesis by blast
qed

section \<open>Properties of the schemas\<close>

lemma bind_err_Inr_iff: "bind_err m f = Inr y \<longleftrightarrow> (\<exists>x. m = Inr x \<and> f x = Inr y)"
  by (cases m) simp_all

lemma bind_err_Inl_iff:
  "bind_err m f = Inl err \<longleftrightarrow> m = Inl err \<or> (\<exists>x. m = Inr x \<and> f x = Inl err)"
  by (cases m) simp_all

lemma parse_shape_keys:
  "parse_shape shape kvs = Inr out \<Longrightarrow> set (map fst out) \<subseteq> set (map fst shape)"
proof (induction shape arbitrary: out)
  case Nil
  then show ?case by simp
next
  case (Cons f shape)
  from Cons.prems obtain v rest where
    v: "snd f (case map_of kvs (fst f) of None \<Rightarrow> Undefined | Some v \<Rightarrow> v) = Inr v"
    and rest: "parse_shape shape kvs = Inr rest"
    and out: "out = (if v \<noteq> Undefined \<or> fst f \<in> set (map fst kvs) then (fst f, v) # rest else rest)"
    by (auto simp: bind_err_Inr_iff)
  from Cons.IH [OF rest] show ?case
    unfolding out by auto
qed

lemma parse_shape_field:
  assumes "distinct (map fst shape)" and "parse_shape shape kvs = Inr out" and "(k, s) \<in> set shape"
  shows "\<exists>v. s (case map_of kvs k of None \<Rightarrow> Undefined | Some v \<Rightarrow> v) = Inr v \<and>
             (case map_of out k of None \<Rightarrow> Undefined | Some v \<Rightarrow> v) = v"
  using assms
proof (induction shape arbitrary: out)
  case Nil
  then show ?case by simp
next
  case (Cons f shape)
  from Cons.prems(2) obtain v rest where
    v: "snd f (case map_of kvs (fst f) of None \<Rightarrow> Undefined | Some v \<Rightarrow> v) = Inr v"
    and rest: "parse_shape shape kvs = Inr rest"
    and out: "out = (if v \<noteq> Undefined \<or> fst f \<in> set (map fst kvs) then (fst f, v) # rest else rest)"
    by (auto simp: bind_err_Inr_iff)
  show ?case
  proof (cases "f = (k, s)")
    case True
    from Cons.prems(1) True have "k \<notin> set (map fst shape)" by simp
    with parse_shape_keys [OF rest] have "k \<notin> set (map fst rest)" by blast
    then have "map_of rest k = None" by (simp add: map_of_eq_None_iff)
    then show ?thesis using v True out by auto
  next
    case False
    with Cons.prems have mem: "(k, s) \<in> set shape" and d: "distinct (map fst shape)"
      and ne: "fst f \<noteq> k"
      by (auto simp: rev_image_eqI)
    from Cons.IH [OF d rest mem] show ?thesis
      using out ne by auto
  qed
qed

lemma z_object_field:
  assumes "distinct (map fst shape)" and "z_object shape doc = Inr out" and "(k, s) \<in> set shape"
  shows "\<exists>v w. get_prop doc k = Inr v \<and> s v = Inr w \<and> get_prop out k = Inr w"
proof -
  from assms(2) obtain kvs fields where doc: "doc = Obj kvs" and p: "parse_shape shape kvs = Inr fields"
    and out: "out = Obj fields"
    by (auto simp: z_object_def bind_err_Inr_iff split: jsval.splits)
  from parse_shape_field [OF assms(1) p assms(3)] show ?thesis
    unfolding doc out by auto
qed

lemma z_number_zod [simp]: "throws_ZodError_only z_number"
  by (auto simp: throws_ZodError_only_def z_number_def split: jsval.splits if_splits)

lemma z_string_zod [simp]: "throws_ZodError_only z_string"
  by (auto simp: throws_ZodError_only_def z_string_def split: jsval.splits)

lemma z_boolean_zod [simp]: "throws_ZodError_only z_boolean"
  by (auto simp: throws_ZodError_only_def z_boolean_def split: jsval.splits)

lemma z_optional_zod [simp]: "throws_ZodError_only inner \<Longrightarrow> throws_ZodError_only (z_optional inner)"
  by (auto simp: throws_ZodError_only_def z_optional_def)

lemma z_nullable_zod [simp]: "throws_ZodError_only inner \<Longrightarrow> throws_ZodError_only (z_nullable inner)"
  by (auto simp: throws_ZodError_only_def z_nullable_def)

lemma z_default_zod [simp]: "throws_ZodError_only inner \<Longrightarrow> throws_ZodError_only (z_default inner d)"
  by (auto simp: throws_ZodError_only_def z_default_def)

lemma parse_items_err:
  "throws_ZodError_only item \<Longrightarrow> parse_items item xs = Inl err \<Longrightarrow> err = ZodError"
  by (induction xs arbitrary: err) (auto simp: bind_err_Inl_iff throws_ZodError_only_def)

lemma z_array_zod [simp]: "throws_ZodError_only item \<Longrightarrow> throws_ZodError_only (z_array item)"
  unfolding throws_ZodError_only_def [of "z_array item"]
  by (auto simp: z_array_def bind_err_Inl_iff split: jsval.splits dest: parse_items_err)

lemma parse_shape_err:
  "list_all (\<lambda>f. throws_ZodError_only (snd f)) shape \<Longrightarrow>
   parse_shape shape kvs = Inl err \<Longrightarrow> err = ZodError"
  by (induction shape arbitrary: err) (auto simp: bind_err_Inl_iff throws_ZodError_only_def)

lemma z_object_zod [simp]:
  "list_all (\<lambda>f. throws_ZodError_only (snd f)) shape \<Longrightarrow> throws_ZodError_only (z_object shape)"
  unfolding throws_ZodError_only_def [of "z_object shape"]
  by (auto simp: z_object_def bind_err_Inl_iff split: jsval.splits dest: parse_shape_err)

lemma robloxUserSchema_zod: "throws_ZodError_only robloxUserSchema"
  by (simp add: robloxUserSchema_def)

lemma robloxFriendsCountSchema_zod: "throws_ZodError_only robloxFriendsCountSchema"
  by (simp add: robloxFriendsCountSchema_def)

lemma robloxUserSchema_cases:
  "robloxUserSchema doc = Inl ZodError \<or> (\<exists>out. robloxUserSchema doc = Inr out)"
  using robloxUserSchema_zod by (cases "robloxUserSchema doc") (auto simp: throws_ZodError_only_def)

lemma user_shape_distinct:
  "distinct (map fst
       [(''id'', z_number),
        (''name'', z_string),
        (''displayName'', z_optional z_string),
        (''description'', z_default (z_optional z_string) (Str [])),
        (''created'', z_optional z_string),
        (''isBanned'', z_default (z_optional z_boolean) (Bool False)),
        (''externalAppDisplayName'', z_optional (z_nullable z_string)),
        (''hasVerifiedBadge'', z_default (z_optional z_boolean) (Bool False)),
        (''previousUsernames'', z_optional (z_array z_string)),
        (''stats'',
           z_optional
             (z_object
                [(''friends'', z_number), (''followers'', z_number), (''following'', z_number)]))])"
  by simp

lemma robloxUserSchema_field:
  assumes "robloxUserSchema doc = Inr out"
  shows "\<exists>v w. get_prop doc ''id'' = Inr v \<and> z_number v = Inr w \<and> get_prop out ''id'' = Inr w"
    and "\<exists>v w. get_prop doc ''name'' = Inr v \<and> z_string v = Inr w \<and> get_prop out ''name'' = Inr w"
    and "\<exists>v w. get_prop doc ''description'' = Inr v \<and> z_default (z_optional z_string) (Str []) v = Inr w \<and>
           get_prop out ''description'' = Inr w"
    and "\<exists>v w. get_prop doc ''isBanned'' = Inr v \<and> z_default (z_optional z_boolean) (Bool False) v = Inr w \<and>
           get_prop out ''isBanned'' = Inr w"
    and "\<exists>v w. get_prop doc ''hasVerifiedBadge'' = Inr v \<and> z_default (z_optional z_boolean) (Bool False) v = Inr w \<and>
           get_prop out ''hasVerifiedBadge'' = Inr w"
  by (rule z_object_field [OF user_shape_distinct assms [unfolded robloxUserSchema_def]], simp)+

lemma default_string:
  "z_default (z_optional z_string) (Str []) v = Inr w \<Longrightarrow>
   w = (if v = Undefined then Str [] else v) \<and> (\<exists>s. w = Str s)"
  by (auto simp: z_default_def z_optional_def z_string_def split: if_splits jsval.splits)

lemma default_boolean:
  "z_default (z_optional z_boolean) (Bool False) v = Inr w \<Longrightarrow>
   w = (if v = Undefined then Bool False else v) \<and> (\<exists>b. w = Bool b)"
  by (auto simp: z_default_def z_optional_def z_boolean_def split: if_splits jsval.splits)

lemma z_number_Inr: "z_number v = Inr w \<Longrightarrow> w = v \<and> (\<exists>n. v = Number n \<and> n \<noteq> NaN)"
  by (auto simp: z_number_def split: jsval.splits if_splits)

lemma z_string_Inr: "z_string v = Inr w \<Longrightarrow> w = v \<and> (\<exists>s. v = Str s)"
  by (auto simp: z_string_def split: jsval.splits)

text \<open>
  C7. Validation of an upstream profile document throws the validation error whenever
  the document has no \<^verbatim>\<open>id\<close> that is a number (\<^verbatim>\<open>NaN\<close> does not count as one) or no
  \<^verbatim>\<open>name\<close> that is a string (a document that is not an object has neither). When it succeeds, the profile has the
  \<^verbatim>\<open>id\<close> and the \<^verbatim>\<open>name\<close> of the document, and \<^verbatim>\<open>description\<close>, \<^verbatim>\<open>isBanned\<close>
  and \<^verbatim>\<open>hasVerifiedBadge\<close> hold the value of the document, or, when the document has
  none, the empty string, \<^verbatim>\<open>false\<close> and \<^verbatim>\<open>false\<close>.
\<close>

theorem robloxUserSchema_fail_closed:
  "((\<forall>n. n \<noteq> NaN \<longrightarrow> get_prop doc ''id'' \<noteq> Inr (Number n)) \<longrightarrow> robloxUserSchema doc = Inl ZodError) \<and>
   ((\<forall>s. get_prop doc ''name'' \<noteq> Inr (Str s)) \<longrightarrow> robloxUserSchema doc = Inl ZodError) \<and>
   (\<forall>out. robloxUserSchema doc = Inr out \<longrightarrow>
      (\<exists>n. n \<noteq> NaN \<and> get_prop doc ''id'' = Inr (Number n) \<and> get_prop out ''id'' = Inr (Number n)) \<and>
      (\<exists>s. get_prop doc ''name'' = Inr (Str s) \<and> get_prop out ''name'' = Inr (Str s)) \<and>
      (\<exists>s. get_prop out ''description'' = Inr (Str s)) \<and>
      (\<exists>b. get_prop out ''isBanned'' = Inr (Bool b)) \<and>
      (\<exists>b. get_prop out ''hasVerifiedBadge'' = Inr (Bool b)) \<and>
      get_prop out ''description'' =
        (if get_prop doc ''description'' = Inr Undefined then Inr (Str []) else get_prop doc ''description'') \<and>
      get_prop out ''isBanned'' =
        (if get_prop doc ''isBanned'' = Inr Undefined then Inr (Bool False) else get_prop doc ''isBanned'') \<and>
      get_prop out ''hasVerifiedBadge'' =
        (if get_prop doc ''hasVerifiedBadge'' = Inr Undefined then Inr (Bool False)
         else get_prop doc ''hasVerifiedBadge''))"
proof -
  have ok: "(\<exists>n. n \<noteq> NaN \<and> get_prop doc ''id'' = Inr (Number n) \<and> get_prop out ''id'' = Inr (Number n)) \<and>
      (\<exists>s. get_prop doc ''name'' = Inr (Str s) \<and> get_prop out ''name'' = Inr (Str s)) \<and>
      (\<exists>s. get_prop out ''description'' = Inr (Str s)) \<and>
      (\<exists>b. get_prop out ''isBanned'' = Inr (Bool b)) \<and>
      (\<exists>b. get_prop out ''hasVerifiedBadge'' = Inr (Bool b)) \<and>
      get_prop out ''description'' =
        (if get_prop doc ''description'' = Inr Undefined then Inr (Str []) else get_prop doc ''description'') \<and>
      get_prop out ''isBanned'' =
        (if get_prop doc ''isBanned'' = Inr Undefined then Inr (Bool False) else get_prop doc ''isBanned'') \<and>
      get_prop out ''hasVerifiedBadge'' =
        (if get_prop doc ''hasVerifiedBadge'' = Inr Undefined then Inr (Bool False)
         else get_prop doc ''hasVerifiedBadge'')"
    if p: "robloxUserSchema doc = Inr out" for out
  proof -
    from robloxUserSchema_field(1) [OF p] z_number_Inr
    have 1: "\<exists>n. n \<noteq> NaN \<and> get_prop doc ''id'' = Inr (Number n) \<and> get_prop out ''id'' = Inr (Number n)"
      by blast
    from robloxUserSchema_field(2) [OF p] z_string_Inr
    have 2: "\<exists>s. get_prop doc ''name'' = Inr (Str s) \<and> get_prop out ''name'' = Inr (Str s)"
      by blast
    from robloxUserSchema_field(3) [OF p] obtain v w where
      d: "get_prop doc ''description'' = Inr v" "z_default (z_optional z_string) (Str []) v = Inr w"
        "get_prop out ''description'' = Inr w"
      by blast
    from default_string [OF d(2)] d(1,3)
    have 3: "(\<exists>s. get_prop out ''description'' = Inr (Str s)) \<and>
       get_prop out ''description'' =
        (if get_prop doc ''description'' = Inr Undefined then Inr (Str []) else get_prop doc ''description'')"
      by auto
    from robloxUserSchema_field(4) [OF p] obtain v w where
      b: "get_prop doc ''isBanned'' = Inr v" "z_default (z_optional z_boolean) (Bool False) v = Inr w"
        "get_prop out ''isBanned'' = Inr w"
      by blast
    from default_boolean [OF b(2)] b(1,3)
    have 4: "(\<exists>b. get_prop out ''isBanned'' = Inr (Bool b)) \<and>
       get_prop out ''isBanned'' =
        (if get_prop doc ''isBanned'' = Inr Undefined then Inr (Bool False) else get_prop doc ''isBanned'')"
      by auto
    from robloxUserSchema_field(5) [OF p] obtain v w where
      h: "get_prop doc ''hasVerifiedBadge'' = Inr v" "z_default (z_optional z_boolean) (Bool False) v = Inr w"
        "get_prop out ''hasVerifiedBadge'' = Inr w"
      by blast
    from default_boolean [OF h(2)] h(1,3)
    have 5: "(\<exists>b. get_prop out ''hasVerifiedBadge'' = Inr (Bool b)) \<and>
       get_prop out ''hasVerifiedBadge'' =
        (if get_prop doc ''hasVerifiedBadge'' = Inr Undefined then Inr (Bool False)
         else get_prop doc ''hasVerifiedBadge'')"
      by auto
    from 1 2 3 4 5 show ?thesis by blast
  qed
  have no_id: "robloxUserSchema doc = Inl ZodError" if "\<forall>n. n \<noteq> NaN \<longrightarrow> get_prop doc ''id'' \<noteq> Inr (Number n)"
    using robloxUserSchema_cases [of doc] ok that by blast
  have no_name: "robloxUserSchema doc = Inl ZodError" if "\<forall>s. get_prop doc ''name'' \<noteq> Inr (Str s)"
    using robloxUserSchema_cases [of doc] ok that by blast
  from ok no_id no_name show ?thesis by blast
qed

lemma robloxUserSchema_user_doc:
  "robloxUserSchema user_doc =
     Inr (Obj [(''id'', Number (Num 156)), (''name'', Str ''builderman''), (''description'', Str []),
               (''isBanned'', Bool False), (''hasVerifiedBadge'', Bool False)])"
  by (simp add: robloxUserSchema_def user_doc_def z_object_def z_number_def z_string_def
      z_optional_def z_default_def z_boolean_def z_nullable_def z_array_def)

theorem robloxUserSchema_fail_closed_witness:
  "get_prop user_doc_no_id ''id'' = Inr Undefined \<and>
   \<not> (\<exists>n. n \<noteq> NaN \<and> get_prop user_doc_no_id ''id'' = Inr (Number n)) \<and>
   robloxUserSchema user_doc_no_id = Inl ZodError \<and>
   (\<forall>s. get_prop user_doc_bad_name ''name'' \<noteq> Inr (Str s)) \<and>
   robloxUserSchema user_doc_bad_name = Inl ZodError \<and>
   (\<exists>out. robloxUserSchema user_doc = Inr out \<and>
      get_prop user_doc ''description'' = Inr Undefined \<and>
      get_prop out ''id'' = Inr (Number (Num 156)) \<and>
      get_prop out ''description'' = Inr (Str []) \<and>
      get_prop out ''isBanned'' = Inr (Bool False) \<and>
      get_prop out ''hasVerifiedBadge'' = Inr (Bool False))"
proof -
  have a: "\<forall>n. n \<noteq> NaN \<longrightarrow> get_prop user_doc_no_id ''id'' \<noteq> Inr (Number n)"
    by (simp add: user_doc_no_id_def)
  have b: "\<forall>s. get_prop user_doc_bad_name ''name'' \<noteq> Inr (Str s)"
    by (simp add: user_doc_bad_name_def)
  note t = robloxUserSchema_fail_closed
  from t [of user_doc_no_id, THEN conjunct1, rule_format, OF a [rule_format]]
  have a': "robloxUserSchema user_doc_no_id = Inl ZodError" .
  from t [of user_doc_bad_name, THEN conjunct2, THEN conjunct1, rule_format, OF b [rule_format]]
  have b': "robloxUserSchema user_doc_bad_name = Inl ZodError" .
  from t [of user_doc, THEN conjunct2, THEN conjunct2, rule_format, OF robloxUserSchema_user_doc]
  have c: "\<exists>out. robloxUserSchema user_doc = Inr out \<and>
      get_prop user_doc ''description'' = Inr Undefined \<and>
      get_prop out ''id'' = Inr (Number (Num 156)) \<and>
      get_prop out ''description'' = Inr (Str []) \<and>
      get_prop out ''isBanned'' = Inr (Bool False) \<and>
      get_prop out ''hasVerifiedBadge'' = Inr (Bool False)"
    using robloxUserSchema_user_doc by (simp add: user_doc_def)
  have u: "get_prop user_doc_no_id ''id'' = Inr Undefined"
    by (simp add: user_doc_no_id_def)
  from a have a'': "\<not> (\<exists>n. n \<noteq> NaN \<and> get_prop user_doc_no_id ''id'' = Inr (Number n))"
    by blast
  from u a'' a' b b' c show ?thesis by blast
qed

section \<open>Properties of the Stats Aggregator\<close>

lemma robloxFriendsCountSchema_Inr:
  assumes "robloxFriendsCountSchema body = Inr d"
  shows "\<exists>a. a \<noteq> NaN \<and> get_prop body ''count'' = Inr (Number a) \<and> get_prop d ''count'' = Inr (Number a)"
proof -
  have "\<exists>v w. get_prop body ''count'' = Inr v \<and> z_number v = Inr w \<and> get_prop d ''count'' = Inr w"
    by (rule z_object_field [OF _ assms [unfolded robloxFriendsCountSchema_def]]) simp_all
  with z_number_Inr show ?thesis by blast
qed

text \<open>
  C6. If one of the three count requests (friends, followers, followings) is rejected, or
  its answer fails validation, the aggregator answers with \<^verbatim>\<open>"N/A"\<close> in all three
  fields and no number. If the three requests succeed and their answers validate, it
  answers with the three validated counts, which are numbers other than \<^verbatim>\<open>NaN\<close> (the
  integers that the answers hold). It answers with status 200 and
  leaves the store alone in both cases.
\<close>

theorem get_stats_fail_together:
  "((\<exists>rel. (\<exists>st. upstream e (GetCount userId rel) = Inl st) \<or>
            (\<exists>body err. upstream e (GetCount userId rel) = Inr body \<and>
                        robloxFriendsCountSchema body = Inl err)) \<longrightarrow>
      reply (get_stats e db userId) = Json 200 stats_sentinel) \<and>
   (\<forall>friends followers following x y z.
      upstream e (GetCount userId Friends) = Inr friends \<and>
      upstream e (GetCount userId Followers) = Inr followers \<and>
      upstream e (GetCount userId Followings) = Inr following \<and>
      robloxFriendsCountSchema friends = Inr x \<and>
      robloxFriendsCountSchema followers = Inr y \<and>
      robloxFriendsCountSchema following = Inr z \<longrightarrow>
      (\<exists>a b c.
         a \<noteq> NaN \<and> b \<noteq> NaN \<and> c \<noteq> NaN \<and>
         get_prop friends ''count'' = Inr (Number a) \<and>
         get_prop followers ''count'' = Inr (Number b) \<and>
         get_prop following ''count'' = Inr (Number c) \<and>
         reply (get_stats e db userId) =
           Json 200 (Obj [(''friends'', Number a), (''followers'', Number b),
                          (''following'', Number c)]))) \<and>
   store_after (get_stats e db userId) = db"
proof (intro conjI allI impI)
  assume "\<exists>rel. (\<exists>st. upstream e (GetCount userId rel) = Inl st) \<or>
            (\<exists>body err. upstream e (GetCount userId rel) = Inr body \<and>
                        robloxFriendsCountSchema body = Inl err)"
  then obtain rel where
    bad: "(\<exists>st. upstream e (GetCount userId rel) = Inl st) \<or>
          (\<exists>body err. upstream e (GetCount userId rel) = Inr body \<and> robloxFriendsCountSchema body = Inl err)"
    by blast
  then show "reply (get_stats e db userId) = Json 200 stats_sentinel"
    by (cases rel) (auto simp: get_stats_def axios_def bind_err_Inr_iff split: sum.splits)
next
  fix friends followers following x y z
  assume h: "upstream e (GetCount userId Friends) = Inr friends \<and>
      upstream e (GetCount userId Followers) = Inr followers \<and>
      upstream e (GetCount userId Followings) = Inr following \<and>
      robloxFriendsCountSchema friends = Inr x \<and>
      robloxFriendsCountSchema followers = Inr y \<and>
      robloxFriendsCountSchema following = Inr z"
  from h robloxFriendsCountSchema_Inr [of friends x] obtain a where
    a: "a \<noteq> NaN" "get_prop friends ''count'' = Inr (Number a)" "get_prop x ''count'' = Inr (Number a)"
    by blast
  from h robloxFriendsCountSchema_Inr [of followers y] obtain b where
    b: "b \<noteq> NaN" "get_prop followers ''count'' = Inr (Number b)" "get_prop y ''count'' = Inr (Number b)"
    by blast
  from h robloxFriendsCountSchema_Inr [of following z] obtain c where
    c: "c \<noteq> NaN" "get_prop following ''count'' = Inr (Number c)" "get_prop z ''count'' = Inr (Number c)"
    by blast
  have "reply (get_stats e db userId) =
           Json 200 (Obj [(''friends'', Number a), (''followers'', Number b),
                          (''following'', Number c)])"
    using h a(3) b(3) c(3) by (simp add: get_stats_def axios_def)
  with a(1,2) b(1,2) c(1,2)
  show "\<exists>a b c.
         a \<noteq> NaN \<and> b \<noteq> NaN \<and> c \<noteq> NaN \<and>
         get_prop friends ''count'' = Inr (Number a) \<and>
         get_prop followers ''count'' = Inr (Number b) \<and>
         get_prop following ''count'' = Inr (Number c) \<and>
         reply (get_stats e db userId) =
           Json 200 (Obj [(''friends'', Number a), (''followers'', Number b),
                          (''following'', Number c)])"
    by blast
next
  show "store_after (get_stats e db userId) = db"
    by (simp add: get_stats_def)
qed

theorem get_stats_fail_together_witness:
  "upstream friends_down_env (GetCount ''156'' Friends) = Inl (Some 503) \<and>
   upstream friends_down_env (GetCount ''156'' Followers) = Inr (Obj [(''count'', Number (Num 340))]) \<and>
   upstream friends_down_env (GetCount ''156'' Followings) = Inr (Obj [(''count'', Number (Num 5))]) \<and>
   reply (get_stats friends_down_env empty_store ''156'') =
     Json 200 (Obj [(''friends'', Str ''N/A''), (''followers'', Str ''N/A''), (''following'', Str ''N/A'')]) \<and>
   upstream counts_env (GetCount ''156'' Friends) = Inr (Obj [(''count'', Number (Num 12))]) \<and>
   upstream counts_env (GetCount ''156'' Followers) = Inr (Obj [(''count'', Number (Num 340))]) \<and>
   upstream counts_env (GetCount ''156'' Followings) = Inr (Obj [(''count'', Number (Num 5))]) \<and>
   reply (get_stats counts_env empty_store ''156'') =
     Json 200 (Obj [(''friends'', Number (Num 12)), (''followers'', Number (Num 340)),
                    (''following'', Number (Num 5))])"
proof -
  have up: "upstream friends_down_env (GetCount ''156'' Friends) = Inl (Some 503)"
    "upstream friends_down_env (GetCount ''156'' Followers) = Inr (Obj [(''count'', Number (Num 340))])"
    "upstream friends_down_env (GetCount ''156'' Followings) = Inr (Obj [(''count'', Number (Num 5))])"
    by (simp_all add: friends_down_env_def)
  have ok: "upstream counts_env (GetCount ''156'' Friends) = Inr (Obj [(''count'', Number (Num 12))])"
    "upstream counts_env (GetCount ''156'' Followers) = Inr (Obj [(''count'', Number (Num 340))])"
    "upstream counts_env (GetCount ''156'' Followings) = Inr (Obj [(''count'', Number (Num 5))])"
    by (simp_all add: counts_env_def)
  have v: "robloxFriendsCountSchema (Obj [(''count'', Number (Num n))]) = Inr (Obj [(''count'', Number (Num n))])" for n
    by (simp add: robloxFriendsCountSchema_def z_object_def z_number_def)
  note t = get_stats_fail_together
  have "\<exists>rel. (\<exists>st. upstream friends_down_env (GetCount ''156'' rel) = Inl st) \<or>
            (\<exists>body err. upstream friends_down_env (GetCount ''156'' rel) = Inr body \<and>
                        robloxFriendsCountSchema body = Inl err)"
    using up(1) by blast
  from t [of friends_down_env "''156''" empty_store, THEN conjunct1, rule_format, OF this]
  have 1: "reply (get_stats friends_down_env empty_store ''156'') = Json 200 stats_sentinel" .
  have "upstream counts_env (GetCount ''156'' Friends) = Inr (Obj [(''count'', Number (Num 12))]) \<and>
      upstream counts_env (GetCount ''156'' Followers) = Inr (Obj [(''count'', Number (Num 340))]) \<and>
      upstream counts_env (GetCount ''156'' Followings) = Inr (Obj [(''count'', Number (Num 5))]) \<and>
      robloxFriendsCountSchema (Obj [(''count'', Number (Num 12))]) = Inr (Obj [(''count'', Number (Num 12))]) \<and>
      robloxFriendsCountSchema (Obj [(''count'', Number (Num 340))]) = Inr (Obj [(''count'', Number (Num 340))]) \<and>
      robloxFriendsCountSchema (Obj [(''count'', Number (Num 5))]) = Inr (Obj [(''count'', Number (Num 5))])"
    using ok v by blast
  from t [of counts_env "''156''" empty_store, THEN conjunct2, THEN conjunct1, rule_format, OF this]
  have 2: "reply (get_stats counts_env empty_store ''156'') =
     Json 200 (Obj [(''friends'', Number (Num 12)), (''followers'', Number (Num 340)),
                    (''following'', Number (Num 5))])"
    by auto
  from up ok 1 2 show ?thesis by (simp add: stats_sentinel_def)
qed

lemma robloxUserSchema_Obj:
  "robloxUserSchema doc = Inr out \<Longrightarrow> \<exists>fields. out = Obj fields"
  by (auto simp: robloxUserSchema_def z_object_def bind_err_Inr_iff split: jsval.splits)

section \<open>Properties of JSON\<close>

lemma json_props_keys: "set (map fst (json_props kvs)) \<subseteq> set (map fst kvs)"
  by (induction kvs) auto

lemma json_props_distinct: "distinct (map fst kvs) \<Longrightarrow> distinct (map fst (json_props kvs))"
  using json_props_keys by (induction kvs) auto

lemma map_of_json_props:
  "distinct (map fst kvs) \<Longrightarrow>
   map_of (json_props kvs) k =
     (case map_of kvs k of
        None \<Rightarrow> None
      | Some v \<Rightarrow> if v = Undefined then None else Some (json_value v))"
proof (induction kvs)
  case Nil
  then show ?case by simp
next
  case (Cons p kvs)
  from Cons.prems have "fst p \<notin> set (map fst kvs)" by simp
  with json_props_keys [of kvs] have "fst p \<notin> set (map fst (json_props kvs))" by blast
  then have "map_of (json_props kvs) (fst p) = None"
    by (simp add: map_of_eq_None_iff)
  with Cons show ?case by (cases p) auto
qed

lemma order_props_keys: "map fst (order_props ps) = map fst ps"
  by (induction ps) auto

lemma map_of_order_props: "map_of (order_props ps) k = map_option key_order (map_of ps k)"
  by (induction ps) auto

lemma map_of_sort_key:
  assumes "distinct (map fst ps)"
  shows "map_of (sort_key f ps) k = map_of ps k"
proof -
  have d: "distinct (map fst (sort_key f ps))"
  proof -
    have "mset (map fst (sort_key f ps)) = mset (map fst ps)" by simp
    from mset_eq_imp_distinct_iff [OF this] assms show ?thesis by simp
  qed
  show ?thesis
  proof (cases "map_of ps k")
    case None
    then have "k \<notin> fst ` set ps" by (simp add: map_of_eq_None_iff)
    then have "map_of (sort_key f ps) k = None" by (simp add: map_of_eq_None_iff)
    with None show ?thesis by simp
  next
    case (Some v)
    with assms have "(k, v) \<in> set ps" by simp
    then have "(k, v) \<in> set (sort_key f ps)" by simp
    with d have "map_of (sort_key f ps) k = Some v" by simp
    with Some show ?thesis by simp
  qed
qed

lemma jsonb_Undefined: "jsonb Undefined = Undefined"
  by (simp add: jsonb_def)

lemma get_prop_json_value_Obj:
  assumes "distinct (map fst kvs)"
  shows "get_prop (json_value (Obj kvs)) k =
     Inr (case map_of kvs k of None \<Rightarrow> Undefined | Some v \<Rightarrow> json_value v)"
  using assms by (auto simp: map_of_json_props split: option.splits)

lemma get_prop_jsonb_Obj:
  assumes "distinct (map fst kvs)"
  shows "get_prop (jsonb (Obj kvs)) k =
     Inr (case map_of kvs k of None \<Rightarrow> Undefined | Some v \<Rightarrow> jsonb v)"
proof -
  have d: "distinct (map fst (order_props (json_props kvs)))"
    using assms by (simp add: order_props_keys json_props_distinct)
  show ?thesis
    using assms
    by (auto simp: jsonb_def map_of_sort_key [OF d] map_of_order_props map_of_json_props
        split: option.splits)
qed

lemma jsonb_all_fail_profile:
  "jsonb
     (Obj [(''id'', Number n),
           (''name'', Str ''Terminated Account''),
           (''displayName'', Str ''Terminated Account''),
           (''description'',
              Str ''This account has been terminated for violating Roblox Terms of Service.''),
           (''isBanned'', Bool True),
           (''previousUsernames'', Arr []),
           (''stats'',
              Obj [(''friends'', Number (Num 0)), (''followers'', Number (Num 0)),
                   (''following'', Number (Num 0))])]) =
   Obj [(''id'', json_value (Number n)),
        (''name'', Str ''Terminated Account''),
        (''stats'',
           Obj [(''friends'', Number (Num 0)), (''followers'', Number (Num 0)),
                (''following'', Number (Num 0))]),
        (''isBanned'', Bool True),
        (''description'',
           Str ''This account has been terminated for violating Roblox Terms of Service.''),
        (''displayName'', Str ''Terminated Account''),
        (''previousUsernames'', Arr [])]"
  by (cases n) (simp_all add: jsonb_def)

section \<open>Properties of the User Record Resolver\<close>

lemma addUserCache_complete:
  assumes inv: "distinct (map uc_userId (userCache db))"
    and d: "ins_userData c \<noteq> Undefined" "ins_userData c \<noteq> Null"
    and t: "ins_timestamp c = Some t"
  shows "\<exists>row db'. addUserCache db c = (Inr (Some row), db') \<and>
           getUserCache db' (ins_userId c) = Some row \<and>
           uc_userId row = ins_userId c \<and>
           uc_userData row = jsonb (ins_userData c) \<and>
           uc_timestamp row = t \<and>
           (ins_avatarUrl c \<noteq> Undefined \<longrightarrow> uc_avatarUrl row = ins_avatarUrl c) \<and>
           (\<forall>b. ins_isTerminated c = Some b \<longrightarrow> uc_isTerminated row = b) \<and>
           distinct (map uc_userId (userCache db')) \<and>
           searchHistory db' = searchHistory db"
proof (cases "getUserCache db (ins_userId c)")
  case None
  let ?row = "\<lparr>uc_id = userCache_seq db, uc_userId = ins_userId c,
                uc_userData = jsonb (ins_userData c),
                uc_avatarUrl = (if ins_avatarUrl c = Undefined then Null else ins_avatarUrl c),
                uc_timestamp = t,
                uc_isTerminated = (case ins_isTerminated c of None \<Rightarrow> Some False | Some b \<Rightarrow> b)\<rparr>"
  let ?db' = "db\<lparr>userCache := userCache db @ [?row], userCache_seq := userCache_seq db + 1\<rparr>"
  have 1: "addUserCache db c = (Inr (Some ?row), ?db')"
    using None d t by (simp add: addUserCache_def Let_def)
  from None have none: "filter (\<lambda>x. uc_userId x = ins_userId c) (userCache db) = []"
    by (auto simp: getUserCache_def split: list.splits)
  have 2: "getUserCache ?db' (ins_userId c) = Some ?row"
    using none by (simp add: getUserCache_def)
  from None have "ins_userId c \<notin> set (map uc_userId (userCache db))"
    by (simp add: getUserCache_None_iff)
  with inv have 3: "distinct (map uc_userId (userCache ?db'))"
    by simp
  show ?thesis
    apply (rule exI [of _ ?row])
    apply (rule exI [of _ ?db'])
    using 1 2 3 by simp
next
  case (Some r)
  let ?r' = "set_columns (as_partial c) r"
  let ?db' = "db\<lparr>userCache := map (\<lambda>x. if uc_userId x = ins_userId c then set_columns (as_partial c) x else x)
             (userCache db)\<rparr>"
  have 1: "addUserCache db c = (Inr (Some ?r'), ?db')"
    by (rule addUserCache_existing [OF inv Some d(2)])
  have 2: "getUserCache ?db' (ins_userId c) = Some ?r'"
    by (simp add: getUserCache_after_update [OF Some])
  have 3: "distinct (map uc_userId (userCache ?db'))"
    using inv by (simp add: map_userId_update del: map_map)
  have 4: "uc_userId ?r' = ins_userId c \<and> uc_userData ?r' = jsonb (ins_userData c) \<and>
           uc_timestamp ?r' = t \<and>
           (ins_avatarUrl c \<noteq> Undefined \<longrightarrow> uc_avatarUrl ?r' = ins_avatarUrl c) \<and>
           (\<forall>b. ins_isTerminated c = Some b \<longrightarrow> uc_isTerminated ?r' = b)"
    using d t by (simp add: set_columns_def as_partial_def)
  show ?thesis
    apply (rule exI [of _ ?r'])
    apply (rule exI [of _ ?db'])
    using 1 2 3 4 by simp
qed

lemma get_user_stale:
  assumes "\<not> (\<exists>c. getUserCache db userId = Some c \<and> fresh e c)"
  shows "get_user e db userId =
     fetch_user e db (case getUserCache db userId of None \<Rightarrow> 0 | Some c \<Rightarrow> 1) userId"
  using assms by (auto simp: get_user_def split: option.splits)

lemma fetch_user_400:
  assumes "upstream e (GetUser userId) = Inl (Some 400)"
  shows "fetch_user e db k userId = terminated_recovery e db k [GetUser userId] userId"
  using assms by (simp add: fetch_user_def axios_def on_error_def)

lemma terminated_recovery_result:
  assumes inv: "distinct (map uc_userId (userCache db))"
  shows "\<exists>row db'.
     terminated_recovery e db k sent userId =
       \<lparr>reply =
          Json 200
            (Obj [(''source'', Str ''api''),
                  (''data'', terminated_userData userId (previous_usernames e userId) (terminated_stats e userId)),
                  (''avatarUrl'', archived_avatar e userId),
                  (''isTerminated'', Bool True),
                  (''stats'', terminated_stats e userId),
                  (''previousUsernames'', previous_usernames e userId)]),
        store_after = db',
        calls = sent @ [GetUsernameHistory userId, GetCount userId Friends, GetCount userId Followers,
                        GetCount userId Followings, GetAvatarHeadshot userId]\<rparr> \<and>
     getUserCache db' userId = Some row \<and>
     uc_userData row =
       jsonb (terminated_userData userId (previous_usernames e userId) (terminated_stats e userId)) \<and>
     uc_timestamp row = toISOString e (clock e k) \<and>
     uc_isTerminated row = Some True \<and>
     (archived_avatar e userId \<noteq> Undefined \<longrightarrow> uc_avatarUrl row = archived_avatar e userId) \<and>
     distinct (map uc_userId (userCache db'))"
proof -
  let ?data = "terminated_userData userId (previous_usernames e userId) (terminated_stats e userId)"
  let ?c = "\<lparr>ins_userId = userId,
             ins_userData = ?data,
             ins_avatarUrl = archived_avatar e userId,
             ins_timestamp = Some (toISOString e (clock e k)),
             ins_isTerminated = Some (Some True)\<rparr>"
  have "ins_userData ?c \<noteq> Undefined" and "ins_userData ?c \<noteq> Null"
    and "ins_timestamp ?c = Some (toISOString e (clock e k))"
    by (simp_all add: terminated_userData_def)
  from addUserCache_complete [OF inv this] obtain row db' where
    a: "addUserCache db ?c = (Inr (Some row), db')"
      "getUserCache db' userId = Some row"
      "uc_userData row = jsonb ?data"
      "uc_timestamp row = toISOString e (clock e k)"
      "archived_avatar e userId \<noteq> Undefined \<longrightarrow> uc_avatarUrl row = archived_avatar e userId"
      "uc_isTerminated row = Some True"
      "distinct (map uc_userId (userCache db'))"
    by (auto simp del: ex_simps)
  show ?thesis
    apply (rule exI [of _ row])
    apply (rule exI [of _ db'])
    using a by (simp add: terminated_recovery_def Let_def)
qed

text \<open>
  C3. When the store has a row for the user whose timestamp is a date less than one hour
  before the time of the request, the resolver answers from the row: the answer has
  the source \<^verbatim>\<open>"cache"\<close> and the stored profile, avatar and terminated flag as they are;
  no upstream call is issued and the store is not written.
\<close>

theorem get_user_fresh_cache:
  assumes "getUserCache db userId = Some cachedUser"
    and "date_parse e (uc_timestamp cachedUser) = Num t"
    and "clock e 0 - t < 3600000"
  shows "get_user e db userId =
     \<lparr>reply =
        Json 200
          (Obj [(''source'', Str ''cache''),
                (''data'', uc_userData cachedUser),
                (''avatarUrl'', uc_avatarUrl cachedUser),
                (''isTerminated'', (case uc_isTerminated cachedUser of None \<Rightarrow> Null | Some b \<Rightarrow> Bool b))]),
      store_after = db,
      calls = []\<rparr>"
  using assms by (simp add: get_user_def fresh_def cache_response_def)

theorem get_user_fresh_cache_witness:
  "getUserCache example_store ''42'' = Some example_row \<and>
   date_parse later_env (uc_timestamp example_row) = Num 1714557600000 \<and>
   clock later_env 0 - 1714557600000 < 3600000 \<and>
   get_user later_env example_store ''42'' =
     \<lparr>reply =
        Json 200
          (Obj [(''source'', Str ''cache''),
                (''data'', Obj [(''id'', Number (Num 42)), (''name'', Str ''builderman'')]),
                (''avatarUrl'', Null),
                (''isTerminated'', Bool False)]),
      store_after = example_store,
      calls = []\<rparr>"
proof -
  have a: "getUserCache example_store ''42'' = Some example_row"
    by (simp add: getUserCache_def example_store_def example_row_def)
  have b: "date_parse later_env (uc_timestamp example_row) = Num 1714557600000"
    by (simp add: later_env_def example_env_def example_row_def)
  have c: "clock later_env 0 - 1714557600000 < 3600000"
    by (simp add: later_env_def)
  from get_user_fresh_cache [OF a b c]
  have "get_user later_env example_store ''42'' =
     \<lparr>reply =
        Json 200
          (Obj [(''source'', Str ''cache''),
                (''data'', Obj [(''id'', Number (Num 42)), (''name'', Str ''builderman'')]),
                (''avatarUrl'', Null),
                (''isTerminated'', Bool False)]),
      store_after = example_store,
      calls = []\<rparr>"
    by (simp add: example_row_def)
  with a b c show ?thesis by blast
qed

lemma previous_usernames_rejected:
  "upstream e (GetUsernameHistory userId) = Inl st \<Longrightarrow> previous_usernames e userId = Arr []"
  by (simp add: previous_usernames_def axios_def)

lemma terminated_stats_rejected:
  "upstream e (GetCount userId rel) = Inl st \<Longrightarrow>
   terminated_stats e userId =
     Obj [(''friends'', Number (Num 0)), (''followers'', Number (Num 0)), (''following'', Number (Num 0))]"
  by (cases rel) (auto simp: terminated_stats_def axios_def split: sum.splits)

lemma archived_avatar_rejected:
  "upstream e (GetAvatarHeadshot userId) = Inl st \<Longrightarrow> archived_avatar e userId = Null"
  by (simp add: archived_avatar_def axios_def)

text \<open>
  C2. Let the store hold at most one row per user and no fresh row for the user. If the
  primary fetch is rejected with status 400 and the three recovery calls fail (the
  username history is rejected, one of the three count requests is rejected, the avatar
  request is rejected), the resolver answers with status 200, source \<^verbatim>\<open>"api"\<close>, a
  synthesized profile with \<^verbatim>\<open>isBanned\<close> true, the name \<^verbatim>\<open>"Terminated Account"\<close>, no
  previous usernames and the counts 0, 0, 0, the avatar \<^verbatim>\<open>null\<close> and
  \<^verbatim>\<open>isTerminated\<close> true; and afterwards the store holds, for the user, a row with that
  profile as the \<^verbatim>\<open>jsonb\<close> column keeps it (the same properties in the order of the
  column, the \<^verbatim>\<open>id\<close> as JSON), a null avatar, the terminated flag and the time of the
  write.
\<close>

theorem get_user_terminated_recoveries_fail:
  assumes inv: "distinct (map uc_userId (userCache db))"
    and stale: "\<not> (\<exists>c. getUserCache db userId = Some c \<and> fresh e c)"
    and primary: "upstream e (GetUser userId) = Inl (Some 400)"
    and history: "upstream e (GetUsernameHistory userId) = Inl st1"
    and counts: "upstream e (GetCount userId rel) = Inl st2"
    and avatar: "upstream e (GetAvatarHeadshot userId) = Inl st3"
  shows "\<exists>data row.
     data =
       Obj [(''id'', Number (parseInt userId)),
            (''name'', Str ''Terminated Account''),
            (''displayName'', Str ''Terminated Account''),
            (''description'',
               Str ''This account has been terminated for violating Roblox Terms of Service.''),
            (''isBanned'', Bool True),
            (''previousUsernames'', Arr []),
            (''stats'',
               Obj [(''friends'', Number (Num 0)), (''followers'', Number (Num 0)),
                    (''following'', Number (Num 0))])] \<and>
     reply (get_user e db userId) =
       Json 200
         (Obj [(''source'', Str ''api''),
               (''data'', data),
               (''avatarUrl'', Null),
               (''isTerminated'', Bool True),
               (''stats'',
                  Obj [(''friends'', Number (Num 0)), (''followers'', Number (Num 0)),
                       (''following'', Number (Num 0))]),
               (''previousUsernames'', Arr [])]) \<and>
     getUserCache (store_after (get_user e db userId)) userId = Some row \<and>
     uc_userData row = jsonb data \<and>
     jsonb data =
       Obj [(''id'', json_value (Number (parseInt userId))),
            (''name'', Str ''Terminated Account''),
            (''stats'',
               Obj [(''friends'', Number (Num 0)), (''followers'', Number (Num 0)),
                    (''following'', Number (Num 0))]),
            (''isBanned'', Bool True),
            (''description'',
               Str ''This account has been terminated for violating Roblox Terms of Service.''),
            (''displayName'', Str ''Terminated Account''),
            (''previousUsernames'', Arr [])] \<and>
     uc_avatarUrl row = Null \<and>
     uc_isTerminated row = Some True \<and>
     uc_timestamp row =
       toISOString e (clock e (case getUserCache db userId of None \<Rightarrow> 0 | Some c \<Rightarrow> 1))"
proof -
  let ?k = "case getUserCache db userId of None \<Rightarrow> 0 | Some c \<Rightarrow> 1"
  have g: "get_user e db userId = terminated_recovery e db ?k [GetUser userId] userId"
    by (simp only: get_user_stale [OF stale] fetch_user_400 [OF primary])
  from terminated_recovery_result [OF inv, of e ?k "[GetUser userId]" userId]
  show ?thesis
    unfolding g previous_usernames_rejected [OF history] terminated_stats_rejected [OF counts]
      archived_avatar_rejected [OF avatar] terminated_userData_def
    using jsonb_all_fail_profile [of "parseInt userId"]
    by auto
qed

theorem get_user_terminated_recoveries_fail_witness:
  "distinct (map uc_userId (userCache empty_store)) \<and>
   \<not> (\<exists>c. getUserCache empty_store ''999'' = Some c \<and> fresh terminated_env c) \<and>
   upstream terminated_env (GetUser ''999'') = Inl (Some 400) \<and>
   upstream terminated_env (GetUsernameHistory ''999'') = Inl (Some 404) \<and>
   upstream terminated_env (GetCount ''999'' Friends) = Inl (Some 404) \<and>
   upstream terminated_env (GetAvatarHeadshot ''999'') = Inl (Some 404) \<and>
   (\<exists>row.
     reply (get_user terminated_env empty_store ''999'') =
       Json 200
         (Obj [(''source'', Str ''api''),
               (''data'',
                  Obj [(''id'', Number (Num 999)),
                       (''name'', Str ''Terminated Account''),
                       (''displayName'', Str ''Terminated Account''),
                       (''description'',
                          Str ''This account has been terminated for violating Roblox Terms of Service.''),
                       (''isBanned'', Bool True),
                       (''previousUsernames'', Arr []),
                       (''stats'',
                          Obj [(''friends'', Number (Num 0)), (''followers'', Number (Num 0)),
                               (''following'', Number (Num 0))])]),
               (''avatarUrl'', Null),
               (''isTerminated'', Bool True),
               (''stats'',
                  Obj [(''friends'', Number (Num 0)), (''followers'', Number (Num 0)),
                       (''following'', Number (Num 0))]),
               (''previousUsernames'', Arr [])]) \<and>
     getUserCache (store_after (get_user terminated_env empty_store ''999'')) ''999'' = Some row \<and>
     uc_userData row =
       Obj [(''id'', Number (Num 999)),
            (''name'', Str ''Terminated Account''),
            (''stats'',
               Obj [(''friends'', Number (Num 0)), (''followers'', Number (Num 0)),
                    (''following'', Number (Num 0))]),
            (''isBanned'', Bool True),
            (''description'',
               Str ''This account has been terminated for violating Roblox Terms of Service.''),
            (''displayName'', Str ''Terminated Account''),
            (''previousUsernames'', Arr [])] \<and>
     uc_avatarUrl row = Null \<and>
     uc_isTerminated row = Some True \<and>
     uc_timestamp row = ''2024-05-01T10:00:00.000Z'')"
proof -
  have inv: "distinct (map uc_userId (userCache empty_store))"
    by (simp add: empty_store_def)
  have none: "getUserCache empty_store ''999'' = None"
    by (simp add: getUserCache_def empty_store_def)
  then have stale: "\<not> (\<exists>c. getUserCache empty_store ''999'' = Some c \<and> fresh terminated_env c)"
    by simp
  have up: "upstream terminated_env (GetUser ''999'') = Inl (Some 400)"
    "upstream terminated_env (GetUsernameHistory ''999'') = Inl (Some 404)"
    "upstream terminated_env (GetCount ''999'' Friends) = Inl (Some 404)"
    "upstream terminated_env (GetAvatarHeadshot ''999'') = Inl (Some 404)"
    by (simp_all add: terminated_env_def)
  have p: "parseInt ''999'' = Num 999"
    by (simp add: parseInt_def strip_sign_def strip_hex_prefix_def white_space_def radix_digit_def
        digit_value_def digits_value_def nearest_double_def)
  have t: "toISOString terminated_env (clock terminated_env 0) = ''2024-05-01T10:00:00.000Z''"
    by (simp add: terminated_env_def example_env_def)
  from get_user_terminated_recoveries_fail [OF inv stale up]
  have "\<exists>row.
     reply (get_user terminated_env empty_store ''999'') =
       Json 200
         (Obj [(''source'', Str ''api''),
               (''data'',
                  Obj [(''id'', Number (Num 999)),
                       (''name'', Str ''Terminated Account''),
                       (''displayName'', Str ''Terminated Account''),
                       (''description'',
                          Str ''This account has been terminated for violating Roblox Terms of Service.''),
                       (''isBanned'', Bool True),
                       (''previousUsernames'', Arr []),
                       (''stats'',
                          Obj [(''friends'', Number (Num 0)), (''followers'', Number (Num 0)),
                               (''following'', Number (Num 0))])]),
               (''avatarUrl'', Null),
               (''isTerminated'', Bool True),
               (''stats'',
                  Obj [(''friends'', Number (Num 0)), (''followers'', Number (Num 0)),
                       (''following'', Number (Num 0))]),
               (''previousUsernames'', Arr [])]) \<and>
     getUserCache (store_after (get_user terminated_env empty_store ''999'')) ''999'' = Some row \<and>
     uc_userData row =
       Obj [(''id'', Number (Num 999)),
            (''name'', Str ''Terminated Account''),
            (''stats'',
               Obj [(''friends'', Number (Num 0)), (''followers'', Number (Num 0)),
                    (''following'', Number (Num 0))]),
            (''isBanned'', Bool True),
            (''description'',
               Str ''This account has been terminated for violating Roblox Terms of Service.''),
            (''displayName'', Str ''Terminated Account''),
            (''previousUsernames'', Arr [])] \<and>
     uc_avatarUrl row = Null \<and>
     uc_isTerminated row = Some True \<and>
     uc_timestamp row = ''2024-05-01T10:00:00.000Z''"
    unfolding p none option.case t json_value.simps by metis
  with inv stale up show ?thesis by blast
qed

lemma fetch_user_rejected:
  assumes "upstream e (GetUser userId) = Inl st" and "st \<noteq> Some 400"
  shows "fetch_user e db k userId =
     \<lparr>reply = Failure 500 ''Failed to fetch user data'' (AxiosError st), store_after = db,
      calls = [GetUser userId]\<rparr>"
  using assms by (simp add: fetch_user_def axios_def on_error_def)

lemma fetch_user_invalid:
  assumes "upstream e (GetUser userId) = Inr doc" and "robloxUserSchema doc = Inl err"
  shows "fetch_user e db k userId =
     \<lparr>reply = Failure 500 ''Failed to fetch user data'' err, store_after = db,
      calls = [GetUser userId]\<rparr>"
proof -
  from assms(2) robloxUserSchema_zod have "err = ZodError"
    by (simp add: throws_ZodError_only_def)
  with assms show ?thesis
    by (simp add: fetch_user_def axios_def on_error_def)
qed

lemma fetch_user_valid:
  assumes inv: "distinct (map uc_userId (userCache db))"
    and "upstream e (GetUser userId) = Inr doc" and "robloxUserSchema doc = Inr validatedData"
  shows "\<exists>row db'.
     fetch_user e db k userId =
       \<lparr>reply =
          Json 200
            (Obj [(''source'', Str ''api''),
                  (''data'', validatedData),
                  (''avatarUrl'', fetch_avatar e userId),
                  (''isTerminated'', Bool (isBanned_or_false validatedData))]),
        store_after = db',
        calls = [GetUser userId, GetAvatarHeadshot userId]\<rparr> \<and>
     getUserCache db' userId = Some row \<and>
     uc_userData row = jsonb validatedData \<and>
     uc_timestamp row = toISOString e (clock e k) \<and>
     uc_isTerminated row = Some (isBanned_or_false validatedData)"
proof -
  let ?c = "\<lparr>ins_userId = userId, ins_userData = validatedData,
             ins_avatarUrl = fetch_avatar e userId,
             ins_timestamp = Some (toISOString e (clock e k)),
             ins_isTerminated = Some (Some (isBanned_or_false validatedData))\<rparr>"
  from robloxUserSchema_Obj [OF assms(3)]
  have "ins_userData ?c \<noteq> Undefined" and "ins_userData ?c \<noteq> Null"
    and "ins_timestamp ?c = Some (toISOString e (clock e k))"
    by auto
  from addUserCache_complete [OF inv this] obtain row db' where
    a: "addUserCache db ?c = (Inr (Some row), db')"
      "getUserCache db' userId = Some row"
      "uc_userData row = jsonb validatedData"
      "uc_timestamp row = toISOString e (clock e k)"
      "uc_isTerminated row = Some (isBanned_or_false validatedData)"
    by (auto simp del: ex_simps)
  show ?thesis
    apply (rule exI [of _ row])
    apply (rule exI [of _ db'])
    using a assms(2,3) by (simp add: fetch_user_def axios_def Let_def)
qed

text \<open>
  C5. Let the store hold at most one row per user and no fresh row for the user, so that
  the resolver fetches the profile. If the fetch is rejected with anything but status
  400, or the fetched document fails validation, the answer is the failure with status
  500 carrying the error, and the store is not written. If the fetch succeeds, the store
  is written only when the document has validated, and the row it then holds for the
  user carries the validated profile, as the \<^verbatim>\<open>jsonb\<close> column keeps it.
\<close>

theorem get_user_fatal_failure:
  assumes inv: "distinct (map uc_userId (userCache db))"
    and stale: "\<not> (\<exists>c. getUserCache db userId = Some c \<and> fresh e c)"
  shows
    "(\<forall>st. upstream e (GetUser userId) = Inl st \<and> st \<noteq> Some 400 \<longrightarrow>
        reply (get_user e db userId) = Failure 500 ''Failed to fetch user data'' (AxiosError st) \<and>
        store_after (get_user e db userId) = db) \<and>
     (\<forall>doc err. upstream e (GetUser userId) = Inr doc \<and> robloxUserSchema doc = Inl err \<longrightarrow>
        reply (get_user e db userId) = Failure 500 ''Failed to fetch user data'' err \<and>
        store_after (get_user e db userId) = db) \<and>
     (\<forall>doc. upstream e (GetUser userId) = Inr doc \<and> store_after (get_user e db userId) \<noteq> db \<longrightarrow>
        (\<exists>validatedData row.
           robloxUserSchema doc = Inr validatedData \<and>
           getUserCache (store_after (get_user e db userId)) userId = Some row \<and>
           uc_userData row = jsonb validatedData))"
proof -
  let ?k = "case getUserCache db userId of None \<Rightarrow> 0 | Some c \<Rightarrow> 1"
  have g: "get_user e db userId = fetch_user e db ?k userId"
    by (rule get_user_stale [OF stale])
  have 1: "reply (get_user e db userId) = Failure 500 ''Failed to fetch user data'' (AxiosError st) \<and>
        store_after (get_user e db userId) = db"
    if "upstream e (GetUser userId) = Inl st \<and> st \<noteq> Some 400" for st
    using that by (simp add: g fetch_user_rejected)
  have 2: "reply (get_user e db userId) = Failure 500 ''Failed to fetch user data'' err \<and>
        store_after (get_user e db userId) = db"
    if "upstream e (GetUser userId) = Inr doc \<and> robloxUserSchema doc = Inl err" for doc err
    using that by (simp add: g fetch_user_invalid)
  have 3: "\<exists>validatedData row.
           robloxUserSchema doc = Inr validatedData \<and>
           getUserCache (store_after (get_user e db userId)) userId = Some row \<and>
           uc_userData row = jsonb validatedData"
    if h: "upstream e (GetUser userId) = Inr doc \<and> store_after (get_user e db userId) \<noteq> db" for doc
  proof (cases "robloxUserSchema doc")
    case (Inl err)
    with h 2 show ?thesis by blast
  next
    case (Inr validatedData)
    from fetch_user_valid [OF inv conjunct1 [OF h] Inr, of ?k]
    show ?thesis unfolding g using Inr by auto
  qed
  from 1 2 3 show ?thesis by blast
qed

theorem get_user_fatal_failure_witness:
  "distinct (map uc_userId (userCache empty_store)) \<and>
   \<not> (\<exists>c. getUserCache empty_store ''156'' = Some c \<and> fresh server_error_env c) \<and>
   upstream server_error_env (GetUser ''156'') = Inl (Some 503) \<and>
   reply (get_user server_error_env empty_store ''156'') =
     Failure 500 ''Failed to fetch user data'' (AxiosError (Some 503)) \<and>
   store_after (get_user server_error_env empty_store ''156'') = empty_store \<and>
   \<not> (\<exists>c. getUserCache empty_store ''156'' = Some c \<and> fresh invalid_profile_env c) \<and>
   upstream invalid_profile_env (GetUser ''156'') = Inr user_doc_no_id \<and>
   robloxUserSchema user_doc_no_id = Inl ZodError \<and>
   reply (get_user invalid_profile_env empty_store ''156'') =
     Failure 500 ''Failed to fetch user data'' ZodError \<and>
   store_after (get_user invalid_profile_env empty_store ''156'') = empty_store \<and>
   \<not> (\<exists>c. getUserCache empty_store ''156'' = Some c \<and> fresh profile_env c) \<and>
   upstream profile_env (GetUser ''156'') = Inr user_doc \<and>
   store_after (get_user profile_env empty_store ''156'') \<noteq> empty_store \<and>
   (\<exists>validatedData row.
      robloxUserSchema user_doc = Inr validatedData \<and>
      getUserCache (store_after (get_user profile_env empty_store ''156'')) ''156'' = Some row \<and>
      uc_userData row = jsonb validatedData)"
proof -
  have inv: "distinct (map uc_userId (userCache empty_store))"
    by (simp add: empty_store_def)
  have none: "getUserCache empty_store ''156'' = None"
    by (simp add: getUserCache_def empty_store_def)
  then have stale: "\<not> (\<exists>c. getUserCache empty_store ''156'' = Some c \<and> fresh e c)" for e
    by simp
  note t = get_user_fatal_failure [OF inv stale]
  have a: "upstream server_error_env (GetUser ''156'') = Inl (Some 503) \<and> Some 503 \<noteq> Some (400::nat)"
    by (simp add: server_error_env_def)
  note a' = t [of server_error_env, THEN conjunct1, rule_format, OF a]
  have z: "robloxUserSchema user_doc_no_id = Inl ZodError"
    using robloxUserSchema_cases [of user_doc_no_id] robloxUserSchema_field(1) [of user_doc_no_id]
      z_number_Inr
    by (auto simp: user_doc_no_id_def)
  have b: "upstream invalid_profile_env (GetUser ''156'') = Inr user_doc_no_id \<and>
      robloxUserSchema user_doc_no_id = Inl ZodError"
    using z by (simp add: invalid_profile_env_def)
  note b' = t [of invalid_profile_env, THEN conjunct2, THEN conjunct1, rule_format, OF b]
  have up: "upstream profile_env (GetUser ''156'') = Inr user_doc"
    by (simp add: profile_env_def)
  from fetch_user_valid [OF inv up robloxUserSchema_user_doc, of 0] obtain row db' where
    f: "store_after (fetch_user profile_env empty_store 0 ''156'') = db'"
      "getUserCache db' ''156'' = Some row"
    by auto
  have g: "get_user profile_env empty_store ''156'' = fetch_user profile_env empty_store 0 ''156''"
    using none by (simp add: get_user_def)
  have w: "store_after (get_user profile_env empty_store ''156'') \<noteq> empty_store"
  proof
    assume "store_after (get_user profile_env empty_store ''156'') = empty_store"
    with f g have "getUserCache empty_store ''156'' = Some row" by simp
    with none show False by simp
  qed
  note c' = t [of profile_env, THEN conjunct2, THEN conjunct2, rule_format, OF conjI [OF up w]]
  from inv stale a a' b b' up w c' show ?thesis by blast
qed

lemma digit_value_zero: "digit_value CHR ''0'' = Some 0"
  by (simp add: digit_value_def)

lemma parseInt_NaN:
  assumes "\<not> begins_with_digit (snd (strip_sign (dropWhile white_space userId)))"
  shows "parseInt userId = NaN"
proof -
  obtain negative s where s: "strip_sign (dropWhile white_space userId) = (negative, s)"
    by (cases "strip_sign (dropWhile white_space userId)")
  with assms have nd: "\<not> begins_with_digit s" by simp
  have hex: "strip_hex_prefix s = (10, s)"
    using nd
    by (auto simp: strip_hex_prefix_def begins_with_digit_def radix_digit_def digit_value_zero
        split: list.splits)
  have "takeWhile (radix_digit 10) s = []"
    using nd by (cases s) (simp_all add: begins_with_digit_def)
  then show ?thesis
    by (simp add: parseInt_def s hex)
qed

lemma robloxUserSchema_NaN_id:
  assumes "get_prop data ''id'' = Inr (Number NaN)"
  shows "robloxUserSchema data = Inl ZodError"
proof (cases "robloxUserSchema data")
  case (Inl err)
  with robloxUserSchema_cases [of data] show ?thesis by auto
next
  case (Inr out)
  from robloxUserSchema_field(1) [OF Inr] z_number_Inr assms show ?thesis by fastforce
qed

lemma get_user_terminated:
  assumes inv: "distinct (map uc_userId (userCache db))"
    and stale: "\<not> (\<exists>c. getUserCache db userId = Some c \<and> fresh e c)"
    and primary: "upstream e (GetUser userId) = Inl (Some 400)"
  shows "\<exists>row.
     reply (get_user e db userId) =
       Json 200
         (Obj [(''source'', Str ''api''),
               (''data'', terminated_userData userId (previous_usernames e userId) (terminated_stats e userId)),
               (''avatarUrl'', archived_avatar e userId),
               (''isTerminated'', Bool True),
               (''stats'', terminated_stats e userId),
               (''previousUsernames'', previous_usernames e userId)]) \<and>
     getUserCache (store_after (get_user e db userId)) userId = Some row \<and>
     uc_userData row =
       jsonb (terminated_userData userId (previous_usernames e userId) (terminated_stats e userId)) \<and>
     uc_timestamp row =
       toISOString e (clock e (case getUserCache db userId of None \<Rightarrow> 0 | Some c \<Rightarrow> 1)) \<and>
     uc_isTerminated row = Some True"
proof -
  let ?k = "case getUserCache db userId of None \<Rightarrow> 0 | Some c \<Rightarrow> 1"
  have g: "get_user e db userId = terminated_recovery e db ?k [GetUser userId] userId"
    by (simp only: get_user_stale [OF stale] fetch_user_400 [OF primary])
  from terminated_recovery_result [OF inv, of e ?k "[GetUser userId]" userId]
  show ?thesis
    unfolding g by auto
qed

lemma terminated_userData_id:
  "get_prop (terminated_userData userId names stats) ''id'' = Inr (Number (parseInt userId))"
  by (simp add: terminated_userData_def)

lemma jsonb_Number: "jsonb (Number n) = json_value (Number n)"
  by (cases n) (simp_all add: jsonb_def)

lemma terminated_userData_jsonb_id:
  "get_prop (jsonb (terminated_userData userId names stats)) ''id'' =
     Inr (json_value (Number (parseInt userId)))"
  unfolding terminated_userData_def
  by (subst get_prop_jsonb_Obj) (simp_all add: jsonb_Number)

lemma terminated_userData_json_id:
  "get_prop (json_value (terminated_userData userId names stats)) ''id'' =
     Inr (json_value (Number (parseInt userId)))"
  unfolding terminated_userData_def
  by (subst get_prop_json_value_Obj) simp_all

lemma terminated_body_json_data:
  "get_prop
     (json_value
        (Obj [(''source'', Str ''api''), (''data'', data), (''avatarUrl'', avatar),
              (''isTerminated'', Bool True), (''stats'', stats), (''previousUsernames'', names)]))
     ''data'' = Inr (json_value data)"
  by (subst get_prop_json_value_Obj) simp_all

text \<open>
  C9, as amended. Let the store hold at most one row per user and no fresh row for the
  user, and let the primary fetch be rejected with status 400. The profile that the
  resolver hands to the response and to the store has the \<^verbatim>\<open>id\<close> \<^verbatim>\<open>parseInt(userId)\<close>,
  and it has not been validated: when that \<^verbatim>\<open>id\<close> is \<^verbatim>\<open>NaN\<close> the validator rejects the
  profile. The row that the store then holds for the user has the profile as the
  \<^verbatim>\<open>jsonb\<close> column keeps it, and the body of the response is sent as JSON: in both the
  \<^verbatim>\<open>id\<close> is what JSON keeps of \<^verbatim>\<open>parseInt(userId)\<close>. For every \<^verbatim>\<open>userId\<close> that, after its
  leading white space and an optional sign, does not begin with a decimal digit,
  \<^verbatim>\<open>parseInt(userId)\<close> is \<^verbatim>\<open>NaN\<close>, and the \<^verbatim>\<open>id\<close> of the stored profile and of the profile
  sent is \<^verbatim>\<open>null\<close>.
\<close>

theorem terminated_id_is_parseInt:
  assumes inv: "distinct (map uc_userId (userCache db))"
    and stale: "\<not> (\<exists>c. getUserCache db userId = Some c \<and> fresh e c)"
    and primary: "upstream e (GetUser userId) = Inl (Some 400)"
  shows "\<exists>body data row.
     reply (get_user e db userId) = Json 200 body \<and>
     get_prop body ''data'' = Inr data \<and>
     get_prop data ''id'' = Inr (Number (parseInt userId)) \<and>
     getUserCache (store_after (get_user e db userId)) userId = Some row \<and>
     uc_userData row = jsonb data \<and>
     get_prop (uc_userData row) ''id'' = Inr (json_value (Number (parseInt userId))) \<and>
     get_prop (json_value body) ''data'' = Inr (json_value data) \<and>
     get_prop (json_value data) ''id'' = Inr (json_value (Number (parseInt userId))) \<and>
     (parseInt userId = NaN \<longrightarrow> robloxUserSchema data = Inl ZodError) \<and>
     (\<not> begins_with_digit (snd (strip_sign (dropWhile white_space userId))) \<longrightarrow>
        get_prop data ''id'' = Inr (Number NaN) \<and>
        get_prop (uc_userData row) ''id'' = Inr Null \<and>
        get_prop (json_value data) ''id'' = Inr Null)"
proof -
  let ?data = "terminated_userData userId (previous_usernames e userId) (terminated_stats e userId)"
  let ?body = "Obj [(''source'', Str ''api''),
               (''data'', ?data),
               (''avatarUrl'', archived_avatar e userId),
               (''isTerminated'', Bool True),
               (''stats'', terminated_stats e userId),
               (''previousUsernames'', previous_usernames e userId)]"
  from get_user_terminated [OF inv stale primary] obtain row where
    r: "reply (get_user e db userId) = Json 200 ?body"
      "getUserCache (store_after (get_user e db userId)) userId = Some row"
      "uc_userData row = jsonb ?data"
    by blast
  have d: "get_prop ?body ''data'' = Inr ?data"
    by simp
  have i: "get_prop ?data ''id'' = Inr (Number (parseInt userId))"
    by (rule terminated_userData_id)
  have s: "get_prop (uc_userData row) ''id'' = Inr (json_value (Number (parseInt userId)))"
    unfolding r(3) by (rule terminated_userData_jsonb_id)
  have w: "get_prop (json_value ?body) ''data'' = Inr (json_value ?data)"
    by (rule terminated_body_json_data)
  have j: "get_prop (json_value ?data) ''id'' = Inr (json_value (Number (parseInt userId)))"
    by (rule terminated_userData_json_id)
  have v: "robloxUserSchema ?data = Inl ZodError" if "parseInt userId = NaN"
    by (rule robloxUserSchema_NaN_id) (simp add: i that)
  have n: "get_prop ?data ''id'' = Inr (Number NaN) \<and>
        get_prop (uc_userData row) ''id'' = Inr Null \<and>
        get_prop (json_value ?data) ''id'' = Inr Null"
    if "\<not> begins_with_digit (snd (strip_sign (dropWhile white_space userId)))"
    using i s j parseInt_NaN [OF that] by simp
  from r d i s w j v n show ?thesis by blast
qed

lemma terminated_env_stale:
  "\<not> (\<exists>c. getUserCache empty_store userId = Some c \<and> fresh terminated_env c)"
  by (simp add: getUserCache_def empty_store_def)

lemma terminated_env_reply:
  "reply (get_user terminated_env empty_store userId) =
     Json 200
       (Obj [(''source'', Str ''api''),
             (''data'',
                Obj [(''id'', Number (parseInt userId)),
                     (''name'', Str ''Terminated Account''),
                     (''displayName'', Str ''Terminated Account''),
                     (''description'',
                        Str ''This account has been terminated for violating Roblox Terms of Service.''),
                     (''isBanned'', Bool True),
                     (''previousUsernames'', Arr []),
                     (''stats'',
                        Obj [(''friends'', Number (Num 0)), (''followers'', Number (Num 0)),
                             (''following'', Number (Num 0))])]),
             (''avatarUrl'', Null),
             (''isTerminated'', Bool True),
             (''stats'',
                Obj [(''friends'', Number (Num 0)), (''followers'', Number (Num 0)),
                     (''following'', Number (Num 0))]),
             (''previousUsernames'', Arr [])])"
proof -
  have inv: "distinct (map uc_userId (userCache empty_store))"
    by (simp add: empty_store_def)
  have up: "upstream terminated_env (GetUser userId) = Inl (Some 400)"
    "upstream terminated_env (GetUsernameHistory userId) = Inl (Some 404)"
    "upstream terminated_env (GetCount userId Friends) = Inl (Some 404)"
    "upstream terminated_env (GetAvatarHeadshot userId) = Inl (Some 404)"
    by (simp_all add: terminated_env_def)
  from get_user_terminated [OF inv terminated_env_stale up(1)]
  show ?thesis
    unfolding previous_usernames_rejected [OF up(2)] terminated_stats_rejected [OF up(3)]
      archived_avatar_rejected [OF up(4)] terminated_userData_def
    by blast
qed

theorem terminated_id_is_parseInt_witness:
  "distinct (map uc_userId (userCache empty_store)) \<and>
   \<not> (\<exists>c. getUserCache empty_store ''abc'' = Some c \<and> fresh terminated_env c) \<and>
   upstream terminated_env (GetUser ''abc'') = Inl (Some 400) \<and>
   \<not> begins_with_digit (snd (strip_sign (dropWhile white_space ''abc''))) \<and>
   parseInt ''abc'' = NaN \<and>
   reply (get_user terminated_env empty_store ''abc'') = Json 200 terminated_abc_body \<and>
   (\<exists>data row.
      get_prop terminated_abc_body ''data'' = Inr data \<and>
      get_prop data ''id'' = Inr (Number NaN) \<and>
      robloxUserSchema data = Inl ZodError \<and>
      getUserCache (store_after (get_user terminated_env empty_store ''abc'')) ''abc'' = Some row \<and>
      uc_userData row = jsonb data \<and>
      get_prop (uc_userData row) ''id'' = Inr Null \<and>
      get_prop (json_value terminated_abc_body) ''data'' = Inr (json_value data) \<and>
      get_prop (json_value data) ''id'' = Inr Null)"
proof -
  have inv: "distinct (map uc_userId (userCache empty_store))"
    by (simp add: empty_store_def)
  have up: "upstream terminated_env (GetUser ''abc'') = Inl (Some 400)"
    by (simp add: terminated_env_def)
  have nd: "\<not> begins_with_digit (snd (strip_sign (dropWhile white_space ''abc'')))"
    by (simp add: begins_with_digit_def strip_sign_def white_space_def radix_digit_def digit_value_def)
  have p: "parseInt ''abc'' = NaN"
    by (rule parseInt_NaN [OF nd])
  have r: "reply (get_user terminated_env empty_store ''abc'') = Json 200 terminated_abc_body"
    by (simp add: terminated_env_reply p terminated_abc_body_def)
  from terminated_id_is_parseInt [OF inv terminated_env_stale up] obtain body data row where
    t: "reply (get_user terminated_env empty_store ''abc'') = Json 200 body"
      "get_prop body ''data'' = Inr data"
      "getUserCache (store_after (get_user terminated_env empty_store ''abc'')) ''abc'' = Some row"
      "uc_userData row = jsonb data"
      "get_prop (json_value body) ''data'' = Inr (json_value data)"
      "parseInt ''abc'' = NaN \<longrightarrow> robloxUserSchema data = Inl ZodError"
      "\<not> begins_with_digit (snd (strip_sign (dropWhile white_space ''abc''))) \<longrightarrow>
         get_prop data ''id'' = Inr (Number NaN) \<and>
         get_prop (uc_userData row) ''id'' = Inr Null \<and>
         get_prop (json_value data) ''id'' = Inr Null"
    by blast
  from t(1) r have "body = terminated_abc_body" by simp
  with t nd p have "\<exists>data row.
      get_prop terminated_abc_body ''data'' = Inr data \<and>
      get_prop data ''id'' = Inr (Number NaN) \<and>
      robloxUserSchema data = Inl ZodError \<and>
      getUserCache (store_after (get_user terminated_env empty_store ''abc'')) ''abc'' = Some row \<and>
      uc_userData row = jsonb data \<and>
      get_prop (uc_userData row) ''id'' = Inr Null \<and>
      get_prop (json_value terminated_abc_body) ''data'' = Inr (json_value data) \<and>
      get_prop (json_value data) ''id'' = Inr Null"
    by blast
  with inv terminated_env_stale up nd p r show ?thesis by blast
qed

text \<open>
  The claim as stated fails for the \<^verbatim>\<open>userId\<close> made of a space and the digit 7: it does
  not begin with a decimal numeral, and the \<^verbatim>\<open>id\<close> of the returned profile is 7.
\<close>

theorem terminated_id_counterexample:
  "\<not> begins_with_digit '' 7'' \<and>
   upstream terminated_env (GetUser '' 7'') = Inl (Some 400) \<and>
   reply (get_user terminated_env empty_store '' 7'') =
     Json 200
       (Obj [(''source'', Str ''api''),
             (''data'',
                Obj [(''id'', Number (Num 7)),
                     (''name'', Str ''Terminated Account''),
                     (''displayName'', Str ''Terminated Account''),
                     (''description'',
                        Str ''This account has been terminated for violating Roblox Terms of Service.''),
                     (''isBanned'', Bool True),
                     (''previousUsernames'', Arr []),
                     (''stats'',
                        Obj [(''friends'', Number (Num 0)), (''followers'', Number (Num 0)),
                             (''following'', Number (Num 0))])]),
             (''avatarUrl'', Null),
             (''isTerminated'', Bool True),
             (''stats'',
                Obj [(''friends'', Number (Num 0)), (''followers'', Number (Num 0)),
                     (''following'', Number (Num 0))]),
             (''previousUsernames'', Arr [])])"
proof -
  have nd: "\<not> begins_with_digit '' 7''"
    by (simp add: begins_with_digit_def radix_digit_def digit_value_def)
  have up: "upstream terminated_env (GetUser '' 7'') = Inl (Some 400)"
    by (simp add: terminated_env_def)
  have p: "parseInt '' 7'' = Num 7"
    by (simp add: parseInt_def strip_sign_def strip_hex_prefix_def white_space_def radix_digit_def
        digit_value_def digits_value_def nearest_double_def)
  from nd up terminated_env_reply [of "'' 7''"] show ?thesis
    unfolding p by blast
qed

text \<open>
  C10. An answer served from the cache has exactly the properties \<^verbatim>\<open>source\<close>,
  \<^verbatim>\<open>data\<close>, \<^verbatim>\<open>avatarUrl\<close> and \<^verbatim>\<open>isTerminated\<close>. Let the store hold at most one row per
  user and no fresh row for the user, and let the primary fetch be rejected with status
  400: the answer has the properties \<^verbatim>\<open>source\<close>, \<^verbatim>\<open>data\<close>, \<^verbatim>\<open>avatarUrl\<close>,
  \<^verbatim>\<open>isTerminated\<close>, \<^verbatim>\<open>stats\<close> and \<^verbatim>\<open>previousUsernames\<close>. A second resolution of the
  same user, at a time less than one hour after the timestamp just written, is served
  from the cache with that profile as the \<^verbatim>\<open>jsonb\<close> column keeps it and the terminated
  flag, without \<^verbatim>\<open>stats\<close> and \<^verbatim>\<open>previousUsernames\<close> at the top level: the two answers
  differ in shape.
\<close>

theorem cache_response_shape:
  assumes inv: "distinct (map uc_userId (userCache db))"
    and stale: "\<not> (\<exists>c. getUserCache db userId = Some c \<and> fresh e c)"
    and primary: "upstream e (GetUser userId) = Inl (Some 400)"
    and parsed: "date_parse e2
        (toISOString e (clock e (case getUserCache db userId of None \<Rightarrow> 0 | Some c \<Rightarrow> 1))) = Num t"
    and recent: "clock e2 0 - t < 3600000"
  shows
    "(\<forall>e' db' u c. getUserCache db' u = Some c \<and> fresh e' c \<longrightarrow>
        response_fields (reply (get_user e' db' u)) =
          [''source'', ''data'', ''avatarUrl'', ''isTerminated'']) \<and>
     response_fields (reply (get_user e db userId)) =
       [''source'', ''data'', ''avatarUrl'', ''isTerminated'', ''stats'', ''previousUsernames''] \<and>
     response_fields (reply (get_user e2 (store_after (get_user e db userId)) userId)) =
       [''source'', ''data'', ''avatarUrl'', ''isTerminated''] \<and>
     (\<exists>body1 body2 data.
        reply (get_user e db userId) = Json 200 body1 \<and>
        reply (get_user e2 (store_after (get_user e db userId)) userId) = Json 200 body2 \<and>
        get_prop body1 ''source'' = Inr (Str ''api'') \<and>
        get_prop body2 ''source'' = Inr (Str ''cache'') \<and>
        get_prop body1 ''data'' = Inr data \<and>
        get_prop body2 ''data'' = Inr (jsonb data) \<and>
        get_prop body1 ''isTerminated'' = Inr (Bool True) \<and>
        get_prop body2 ''isTerminated'' = Inr (Bool True)) \<and>
     calls (get_user e2 (store_after (get_user e db userId)) userId) = []"
proof -
  have hit: "get_user e' db' u =
      \<lparr>reply = Json 200 (cache_response c), store_after = db', calls = []\<rparr>"
    if "getUserCache db' u = Some c \<and> fresh e' c" for e' db' u c
    using that by (simp add: get_user_def)
  have general: "response_fields (reply (get_user e' db' u)) =
          [''source'', ''data'', ''avatarUrl'', ''isTerminated'']"
    if "getUserCache db' u = Some c \<and> fresh e' c" for e' db' u c
    by (simp add: hit [OF that] response_fields_def cache_response_def)
  let ?data = "terminated_userData userId (previous_usernames e userId) (terminated_stats e userId)"
  let ?body1 = "Obj [(''source'', Str ''api''),
               (''data'', ?data),
               (''avatarUrl'', archived_avatar e userId),
               (''isTerminated'', Bool True),
               (''stats'', terminated_stats e userId),
               (''previousUsernames'', previous_usernames e userId)]"
  let ?db1 = "store_after (get_user e db userId)"
  from get_user_terminated [OF inv stale primary] obtain row where
    r: "reply (get_user e db userId) = Json 200 ?body1"
      "getUserCache ?db1 userId = Some row"
      "uc_userData row = jsonb ?data"
      "uc_timestamp row =
         toISOString e (clock e (case getUserCache db userId of None \<Rightarrow> 0 | Some c \<Rightarrow> 1))"
      "uc_isTerminated row = Some True"
    by blast
  have f: "fresh e2 row"
    using parsed recent by (simp add: fresh_def r(4))
  have second: "get_user e2 ?db1 userId =
      \<lparr>reply = Json 200 (cache_response row), store_after = ?db1, calls = []\<rparr>"
    by (rule hit) (simp add: r(2) f)
  have shape1: "response_fields (reply (get_user e db userId)) =
       [''source'', ''data'', ''avatarUrl'', ''isTerminated'', ''stats'', ''previousUsernames'']"
    by (simp add: r(1) response_fields_def)
  have shape2: "response_fields (reply (get_user e2 ?db1 userId)) =
       [''source'', ''data'', ''avatarUrl'', ''isTerminated'']"
    by (simp add: second response_fields_def cache_response_def)
  have bodies: "\<exists>body1 body2 data.
        reply (get_user e db userId) = Json 200 body1 \<and>
        reply (get_user e2 ?db1 userId) = Json 200 body2 \<and>
        get_prop body1 ''source'' = Inr (Str ''api'') \<and>
        get_prop body2 ''source'' = Inr (Str ''cache'') \<and>
        get_prop body1 ''data'' = Inr data \<and>
        get_prop body2 ''data'' = Inr (jsonb data) \<and>
        get_prop body1 ''isTerminated'' = Inr (Bool True) \<and>
        get_prop body2 ''isTerminated'' = Inr (Bool True)"
    apply (rule exI [of _ ?body1])
    apply (rule exI [of _ "cache_response row"])
    apply (rule exI [of _ ?data])
    by (simp add: r(1) second cache_response_def r(3) r(5))
  have none: "calls (get_user e2 ?db1 userId) = []"
    by (simp add: second)
  from general shape1 shape2 bodies none show ?thesis by blast
qed

theorem cache_response_shape_witness:
  "distinct (map uc_userId (userCache empty_store)) \<and>
   \<not> (\<exists>c. getUserCache empty_store ''999'' = Some c \<and> fresh terminated_env c) \<and>
   upstream terminated_env (GetUser ''999'') = Inl (Some 400) \<and>
   date_parse next_request_env
     (toISOString terminated_env
        (clock terminated_env (case getUserCache empty_store ''999'' of None \<Rightarrow> 0 | Some c \<Rightarrow> 1))) =
     Num 1714557600000 \<and>
   clock next_request_env 0 - 1714557600000 < 3600000 \<and>
   response_fields (reply (get_user terminated_env empty_store ''999'')) =
     [''source'', ''data'', ''avatarUrl'', ''isTerminated'', ''stats'', ''previousUsernames''] \<and>
   response_fields
     (reply (get_user next_request_env (store_after (get_user terminated_env empty_store ''999'')) ''999'')) =
     [''source'', ''data'', ''avatarUrl'', ''isTerminated''] \<and>
   getUserCache example_store ''42'' = Some example_row \<and>
   fresh next_request_env example_row \<and>
   response_fields (reply (get_user next_request_env example_store ''42'')) =
     [''source'', ''data'', ''avatarUrl'', ''isTerminated'']"
proof -
  have inv: "distinct (map uc_userId (userCache empty_store))"
    by (simp add: empty_store_def)
  have up: "upstream terminated_env (GetUser ''999'') = Inl (Some 400)"
    by (simp add: terminated_env_def)
  have none: "getUserCache empty_store ''999'' = None"
    by (simp add: getUserCache_def empty_store_def)
  have parsed: "date_parse next_request_env
     (toISOString terminated_env
        (clock terminated_env (case getUserCache empty_store ''999'' of None \<Rightarrow> 0 | Some c \<Rightarrow> 1))) =
     Num 1714557600000"
    by (simp add: none next_request_env_def terminated_env_def example_env_def)
  have recent: "clock next_request_env 0 - 1714557600000 < 3600000"
    by (simp add: next_request_env_def)
  have hit: "getUserCache example_store ''42'' = Some example_row \<and> fresh next_request_env example_row"
    by (simp add: getUserCache_def example_store_def example_row_def fresh_def next_request_env_def
        terminated_env_def example_env_def)
  note t = cache_response_shape [OF inv terminated_env_stale up parsed recent]
  note g = t [THEN conjunct1, rule_format, OF hit]
  note t2 = t [THEN conjunct2, THEN conjunct1]
  note t3 = t [THEN conjunct2, THEN conjunct2, THEN conjunct1]
  from inv terminated_env_stale up parsed recent t2 t3 hit g show ?thesis by blast
qed

section \<open>Properties of the Username Resolver\<close>

lemma by_username_throws:
  assumes "username \<noteq> []"
    and "bind_err (axios e (PostUsernames username)) username_answer = Inl err"
  shows "by_username e db (Some username) =
     \<lparr>reply = Failure 500 ''Failed to fetch user ID'' err,
      store_after =
        db\<lparr>searchHistory := searchHistory db @
             [\<lparr>sh_id = searchHistory_seq db, sh_query = username, sh_type = ''username'',
               sh_timestamp = toISOString e (clock e 0), sh_success = True\<rparr>,
              \<lparr>sh_id = searchHistory_seq db + 1, sh_query = username, sh_type = ''username'',
               sh_timestamp = toISOString e (clock e 1), sh_success = False\<rparr>],
           searchHistory_seq := searchHistory_seq db + 2\<rparr>,
      calls = [PostUsernames username]\<rparr>"
  using assms by (simp add: by_username_def addSearchHistory_def history_entry_def Let_def)

lemma by_username_answers:
  assumes "username \<noteq> []"
    and "bind_err (axios e (PostUsernames username)) username_answer = Inr answer"
  shows "by_username e db (Some username) =
     \<lparr>reply = answer,
      store_after =
        db\<lparr>searchHistory := searchHistory db @
             [\<lparr>sh_id = searchHistory_seq db, sh_query = username, sh_type = ''username'',
               sh_timestamp = toISOString e (clock e 0), sh_success = True\<rparr>],
           searchHistory_seq := searchHistory_seq db + 1\<rparr>,
      calls = [PostUsernames username]\<rparr>"
  using assms by (simp add: by_username_def addSearchHistory_def history_entry_def Let_def)

lemma username_answer_no_match:
  assumes "get_prop body ''data'' = Inr d" and "get_prop d ''length'' = Inr (Number (Num 0))"
  shows "username_answer body = Inr (Json 404 (Obj [(''error'', Str ''User not found'')]))"
  using assms by (simp add: username_answer_def)

lemma username_answer_match:
  assumes "get_prop body ''data'' = Inr (Arr (first # rest))"
    and "get_prop first ''id'' = Inr (Number (Num i))"
  shows "username_answer body = Inr (Json 200 (Obj [(''userId'', Str (dec_int i))]))"
  using assms by (simp add: username_answer_def)

text \<open>
  C1, as amended. For every call of the username resolver with a non-empty username: if
  the upstream lookup throws (the call is rejected, or its answer cannot be read), two
  entries are appended to the search history, one tagged \<^verbatim>\<open>success = true\<close>, written
  before the lookup, and after it one tagged \<^verbatim>\<open>success = false\<close>, and the answer is the
  failure with status 500; if the lookup returns a first match with a numeric id, exactly
  one entry is appended, tagged \<^verbatim>\<open>success = true\<close>, and the answer carries the id in
  decimal; if the lookup returns zero matches, exactly one entry is appended and the
  answer is the not-found answer with status 404.
\<close>

theorem by_username_history:
  assumes nonempty: "username \<noteq> []"
  shows
    "(\<forall>err. (\<exists>st. upstream e (PostUsernames username) = Inl st \<and> err = AxiosError st) \<or>
            (\<exists>body. upstream e (PostUsernames username) = Inr body \<and> username_answer body = Inl err) \<longrightarrow>
        reply (by_username e db (Some username)) = Failure 500 ''Failed to fetch user ID'' err \<and>
        searchHistory (store_after (by_username e db (Some username))) =
          searchHistory db @
            [\<lparr>sh_id = searchHistory_seq db, sh_query = username, sh_type = ''username'',
              sh_timestamp = toISOString e (clock e 0), sh_success = True\<rparr>,
             \<lparr>sh_id = searchHistory_seq db + 1, sh_query = username, sh_type = ''username'',
              sh_timestamp = toISOString e (clock e 1), sh_success = False\<rparr>]) \<and>
     (\<forall>body first rest i.
        upstream e (PostUsernames username) = Inr body \<and>
        get_prop body ''data'' = Inr (Arr (first # rest)) \<and>
        get_prop first ''id'' = Inr (Number (Num i)) \<longrightarrow>
        reply (by_username e db (Some username)) = Json 200 (Obj [(''userId'', Str (dec_int i))]) \<and>
        searchHistory (store_after (by_username e db (Some username))) =
          searchHistory db @
            [\<lparr>sh_id = searchHistory_seq db, sh_query = username, sh_type = ''username'',
              sh_timestamp = toISOString e (clock e 0), sh_success = True\<rparr>]) \<and>
     (\<forall>body d.
        upstream e (PostUsernames username) = Inr body \<and>
        get_prop body ''data'' = Inr d \<and>
        get_prop d ''length'' = Inr (Number (Num 0)) \<longrightarrow>
        reply (by_username e db (Some username)) = Json 404 (Obj [(''error'', Str ''User not found'')]) \<and>
        length (searchHistory (store_after (by_username e db (Some username)))) =
          length (searchHistory db) + 1 \<and>
        take (length (searchHistory db)) (searchHistory (store_after (by_username e db (Some username)))) =
          searchHistory db) \<and>
     userCache (store_after (by_username e db (Some username))) = userCache db"
proof -
  let ?chain = "bind_err (axios e (PostUsernames username)) username_answer"
  have A: "reply (by_username e db (Some username)) = Failure 500 ''Failed to fetch user ID'' err \<and>
        searchHistory (store_after (by_username e db (Some username))) =
          searchHistory db @
            [\<lparr>sh_id = searchHistory_seq db, sh_query = username, sh_type = ''username'',
              sh_timestamp = toISOString e (clock e 0), sh_success = True\<rparr>,
             \<lparr>sh_id = searchHistory_seq db + 1, sh_query = username, sh_type = ''username'',
              sh_timestamp = toISOString e (clock e 1), sh_success = False\<rparr>]"
    if h: "(\<exists>st. upstream e (PostUsernames username) = Inl st \<and> err = AxiosError st) \<or>
            (\<exists>body. upstream e (PostUsernames username) = Inr body \<and> username_answer body = Inl err)"
    for err
  proof -
    from h have "?chain = Inl err"
      by (auto simp: axios_def)
    from by_username_throws [OF nonempty this] show ?thesis by simp
  qed
  have B: "reply (by_username e db (Some username)) = Json 200 (Obj [(''userId'', Str (dec_int i))]) \<and>
        searchHistory (store_after (by_username e db (Some username))) =
          searchHistory db @
            [\<lparr>sh_id = searchHistory_seq db, sh_query = username, sh_type = ''username'',
              sh_timestamp = toISOString e (clock e 0), sh_success = True\<rparr>]"
    if h: "upstream e (PostUsernames username) = Inr body \<and>
        get_prop body ''data'' = Inr (Arr (first # rest)) \<and>
        get_prop first ''id'' = Inr (Number (Num i))"
    for body first rest i
  proof -
    from h have "?chain = Inr (Json 200 (Obj [(''userId'', Str (dec_int i))]))"
      by (simp add: axios_def username_answer_match [of body first rest i])
    from by_username_answers [OF nonempty this] show ?thesis by simp
  qed
  have C: "reply (by_username e db (Some username)) = Json 404 (Obj [(''error'', Str ''User not found'')]) \<and>
        length (searchHistory (store_after (by_username e db (Some username)))) =
          length (searchHistory db) + 1 \<and>
        take (length (searchHistory db)) (searchHistory (store_after (by_username e db (Some username)))) =
          searchHistory db"
    if h: "upstream e (PostUsernames username) = Inr body \<and>
        get_prop body ''data'' = Inr d \<and>
        get_prop d ''length'' = Inr (Number (Num 0))"
    for body d
  proof -
    from h have "?chain = Inr (Json 404 (Obj [(''error'', Str ''User not found'')]))"
      by (simp add: axios_def username_answer_no_match [of body d])
    from by_username_answers [OF nonempty this] show ?thesis by simp
  qed
  have D: "userCache (store_after (by_username e db (Some username))) = userCache db"
  proof (cases ?chain)
    case (Inl err)
    from by_username_throws [OF nonempty this] show ?thesis by simp
  next
    case (Inr answer)
    from by_username_answers [OF nonempty this] show ?thesis by simp
  qed
  from A B C D show ?thesis by blast
qed

theorem by_username_history_witness:
  "''robloxuser123'' \<noteq> [] \<and>
   upstream lookup_env (PostUsernames ''robloxuser123'') =
     Inr (Obj [(''data'',
                Arr [Obj [(''requestedUsername'', Str ''robloxuser123''), (''hasVerifiedBadge'', Bool False),
                          (''id'', Number (Num 456)), (''name'', Str ''robloxuser123''),
                          (''displayName'', Str ''robloxuser123'')]])]) \<and>
   reply (by_username lookup_env empty_store (Some ''robloxuser123'')) =
     Json 200 (Obj [(''userId'', Str ''456'')]) \<and>
   searchHistory (store_after (by_username lookup_env empty_store (Some ''robloxuser123''))) =
     [robloxuser123_entry] \<and>
   getRecentSearches (store_after (by_username lookup_env empty_store (Some ''robloxuser123''))) (Some (Num 1)) =
     Inr [robloxuser123_entry] \<and>
   upstream server_error_env (PostUsernames ''robloxuser123'') = Inl (Some 503) \<and>
   reply (by_username server_error_env empty_store (Some ''robloxuser123'')) =
     Failure 500 ''Failed to fetch user ID'' (AxiosError (Some 503)) \<and>
   searchHistory (store_after (by_username server_error_env empty_store (Some ''robloxuser123''))) =
     [robloxuser123_entry, robloxuser123_failed] \<and>
   upstream no_match_env (PostUsernames ''robloxuser123'') = Inr (Obj [(''data'', Arr [])]) \<and>
   reply (by_username no_match_env empty_store (Some ''robloxuser123'')) =
     Json 404 (Obj [(''error'', Str ''User not found'')]) \<and>
   length (searchHistory (store_after (by_username no_match_env empty_store (Some ''robloxuser123'')))) = 1"
proof -
  have ne: "''robloxuser123'' \<noteq> []" by simp
  note t = by_username_history [OF ne]
  let ?first = "Obj [(''requestedUsername'', Str ''robloxuser123''), (''hasVerifiedBadge'', Bool False),
                          (''id'', Number (Num 456)), (''name'', Str ''robloxuser123''),
                          (''displayName'', Str ''robloxuser123'')]"
  have up1: "upstream lookup_env (PostUsernames ''robloxuser123'') = Inr (Obj [(''data'', Arr [?first])])"
    by (simp add: lookup_env_def)
  have m: "upstream lookup_env (PostUsernames ''robloxuser123'') = Inr (Obj [(''data'', Arr [?first])]) \<and>
      get_prop (Obj [(''data'', Arr [?first])]) ''data'' = Inr (Arr (?first # [])) \<and>
      get_prop ?first ''id'' = Inr (Number (Num 456))"
    using up1 by simp
  have dec: "dec_int 456 = ''456''"
    by (simp add: dec_int_def dec_nat.simps digit_char_def)
  from t [of lookup_env empty_store, THEN conjunct2, THEN conjunct1, rule_format, OF m]
  have 1: "reply (by_username lookup_env empty_store (Some ''robloxuser123'')) =
       Json 200 (Obj [(''userId'', Str ''456'')])"
    and 2: "searchHistory (store_after (by_username lookup_env empty_store (Some ''robloxuser123''))) =
       [robloxuser123_entry]"
    by (simp_all add: dec empty_store_def lookup_env_def example_env_def robloxuser123_entry_def)
  have 3: "getRecentSearches (store_after (by_username lookup_env empty_store (Some ''robloxuser123'')))
       (Some (Num 1)) = Inr [robloxuser123_entry]"
    by (simp add: getRecentSearches_def by_timestamp_desc_def 2)
  have up2: "upstream server_error_env (PostUsernames ''robloxuser123'') = Inl (Some 503)"
    by (simp add: server_error_env_def)
  then have r: "(\<exists>st. upstream server_error_env (PostUsernames ''robloxuser123'') = Inl st \<and>
        AxiosError (Some 503) = AxiosError st) \<or>
      (\<exists>body. upstream server_error_env (PostUsernames ''robloxuser123'') = Inr body \<and>
        username_answer body = Inl (AxiosError (Some 503)))"
    by simp
  from t [of server_error_env empty_store, THEN conjunct1, rule_format, OF r]
  have 4: "reply (by_username server_error_env empty_store (Some ''robloxuser123'')) =
       Failure 500 ''Failed to fetch user ID'' (AxiosError (Some 503))"
    and 5: "searchHistory (store_after (by_username server_error_env empty_store (Some ''robloxuser123''))) =
       [robloxuser123_entry, robloxuser123_failed]"
    by (simp_all add: empty_store_def server_error_env_def example_env_def robloxuser123_entry_def
        robloxuser123_failed_def)
  have up3: "upstream no_match_env (PostUsernames ''robloxuser123'') = Inr (Obj [(''data'', Arr [])])"
    by (simp add: no_match_env_def)
  have z: "upstream no_match_env (PostUsernames ''robloxuser123'') = Inr (Obj [(''data'', Arr [])]) \<and>
      get_prop (Obj [(''data'', Arr [])]) ''data'' = Inr (Arr []) \<and>
      get_prop (Arr []) ''length'' = Inr (Number (Num 0))"
    using up3 by simp
  from t [of no_match_env empty_store, THEN conjunct2, THEN conjunct2, THEN conjunct1, rule_format, OF z]
  have 6: "reply (by_username no_match_env empty_store (Some ''robloxuser123'')) =
       Json 404 (Obj [(''error'', Str ''User not found'')])"
    and 7: "length (searchHistory (store_after (by_username no_match_env empty_store (Some ''robloxuser123'')))) = 1"
    by (simp_all add: empty_store_def)
  from ne up1 1 2 3 up2 4 5 up3 6 7 show ?thesis by blast
qed

text \<open>
  The claim as stated fails when the lookup is rejected: two entries are appended, the
  first tagged \<^verbatim>\<open>success = true\<close>.
\<close>

theorem by_username_rejected_counterexample:
  "searchHistory empty_store = [] \<and>
   upstream server_error_env (PostUsernames ''robloxuser123'') = Inl (Some 503) \<and>
   map sh_success
     (searchHistory (store_after (by_username server_error_env empty_store (Some ''robloxuser123'')))) =
     [True, False]"
proof -
  have up: "upstream server_error_env (PostUsernames ''robloxuser123'') = Inl (Some 503)"
    by (simp add: server_error_env_def)
  then have "bind_err (axios server_error_env (PostUsernames ''robloxuser123'')) username_answer =
      Inl (AxiosError (Some 503))"
    by (simp add: axios_def)
  from by_username_throws [OF _ this, of empty_store] up show ?thesis
    by (simp add: empty_store_def)
qed

section \<open>Properties of the Numeral Reader\<close>

text \<open>
  A numeral beyond \<open>2 ^ 53\<close> is read as the nearest double, ties to even, and a sign and
  leading white space are accepted before it.
\<close>

lemma parseInt_nearest_double:
  "parseInt ''9007199254740993'' = Num 9007199254740992 \<and>
   parseInt ''9007199254740995'' = Num 9007199254740996 \<and>
   parseInt '' -12px'' = Num (- 12) \<and>
   parseInt ''0x1f'' = Num 31 \<and>
   parseInt ''-'' = NaN"
  by code_simp

end
